theory Spec2Isabelle
  imports Complex_Main
begin

section \<open>Numbers, dates and arrays\<close>

text \<open>
  A JavaScript number is modelled by a \<^typ>\<open>real\<close>: the value of the double. The
  band checks only compare a stored number with a literal, which is exact on doubles;
  a decimal literal such as \<open>7.2\<close> stands for the double that the source literal
  denotes. The scores are computed with the exact arithmetic of the reals. The trend,
  whose answer turns on the last bits of a quotient, is computed with the rounding of
  doubles. The schemas keep \<open>NaN\<close> out of every stored number. A \<open>Date\<close> is its time
  value, an integer number of milliseconds; \<open>new Date() - new Date(d)\<close> is the
  difference of two of them.
\<close>

text \<open>\<open>Array.prototype.push\<close>: the element goes to the end of the array.\<close>

definition push :: "'a list \<Rightarrow> 'a \<Rightarrow> 'a list" where
  "push xs x = xs @ [x]"

section \<open>src/models/Pool.js\<close>

text \<open>
  \<open>waterChemistrySchema\<close>: the numeric fields and the date of one reading
  (\<open>testedBy\<close> and \<open>notes\<close> are read by none of the methods below).
\<close>

record waterChemistrySchema =
  pH :: real
  chlorine :: real
  alkalinity :: real
  hardness :: real
  cyanuricAcid :: real
  temperature :: real
  testedAt :: int

text \<open>
  The \<open>min\<close> and \<open>max\<close> validators the schema declares on a reading. Mongoose runs
  them when a document is validated or saved; no method of the model calls them.
\<close>

definition waterChemistrySchema_validators :: "waterChemistrySchema \<Rightarrow> bool" where
  "waterChemistrySchema_validators r \<longleftrightarrow>
     0 \<le> pH r \<and> pH r \<le> 14 \<and> 0 \<le> chlorine r \<and> 0 \<le> alkalinity r \<and>
     0 \<le> hardness r \<and> 0 \<le> cyanuricAcid r"

text \<open>\<open>poolSchema\<close>: of a pool the methods read the array of readings only.\<close>

record poolSchema =
  waterChemistry :: "waterChemistrySchema list"

text \<open>
  The virtual \<open>latestWaterChemistry\<close>. The comparator
  \<open>(a, b) => new Date(b.testedAt) - new Date(a.testedAt)\<close> sorts by descending date;
  \<open>Array.prototype.sort\<close> is stable, as is \<^const>\<open>sort_key\<close>, so readings of the
  same date keep their order. The getter returns element 0 of the sorted array, or
  \<open>null\<close> (here \<^const>\<open>None\<close>) for a pool without readings. The sort is in place:
  it also leaves the pool's array in that order, which none of the results below
  depends on.
\<close>

definition latestWaterChemistry :: "poolSchema \<Rightarrow> waterChemistrySchema option" where
  "latestWaterChemistry this =
     (if length (waterChemistry this) > 0
      then (case sort_key (\<lambda>a. - testedAt a) (waterChemistry this) of
              [] \<Rightarrow> None
            | latest # _ \<Rightarrow> Some latest)
      else None)"

text \<open>
  \<open>needsAttention\<close>. The current time \<open>new Date()\<close> is the parameter \<open>now\<close>.
\<close>

definition needsAttention :: "poolSchema \<Rightarrow> int \<Rightarrow> bool" where
  "needsAttention this now =
     (case latestWaterChemistry this of
        None \<Rightarrow> True
      | Some latest \<Rightarrow>
          (let phOk = (pH latest \<ge> 7.2 \<and> pH latest \<le> 7.6);
               chlorineOk = (chlorine latest \<ge> 1.0 \<and> chlorine latest \<le> 3.0);
               alkalinityOk = (alkalinity latest \<ge> 80 \<and> alkalinity latest \<le> 120);
               recentReading = (now - testedAt latest \<le> 7 * 24 * 60 * 60 * 1000)
           in \<not> phOk \<or> \<not> chlorineOk \<or> \<not> alkalinityOk \<or> \<not> recentReading))"

text \<open>
  A recommendation object. The one pushed for a pool without readings has no
  \<open>priority\<close> property.
\<close>

record recommendation =
  type :: string
  message :: string
  priority :: "string option"

definition getRecommendations :: "poolSchema \<Rightarrow> recommendation list" where
  "getRecommendations this =
     (let recommendations = [] in
      case latestWaterChemistry this of
        None \<Rightarrow>
          push recommendations
            \<lparr>type = ''urgent'',
             message = ''Water chemistry test needed immediately'',
             priority = None\<rparr>
      | Some latest \<Rightarrow>
          (let recommendations =
                 (if pH latest < 7.2 then
                    push recommendations
                      \<lparr>type = ''chemical'',
                       message = ''pH is too low. Add sodium carbonate (soda ash) to raise pH.'',
                       priority = Some ''high''\<rparr>
                  else if pH latest > 7.6 then
                    push recommendations
                      \<lparr>type = ''chemical'',
                       message = ''pH is too high. Add muriatic acid or sodium bisulfate to lower pH.'',
                       priority = Some ''high''\<rparr>
                  else recommendations);
               recommendations =
                 (if chlorine latest < 1.0 then
                    push recommendations
                      \<lparr>type = ''chemical'',
                       message = ''Chlorine level is too low. Add chlorine shock or liquid chlorine.'',
                       priority = Some ''urgent''\<rparr>
                  else if chlorine latest > 3.0 then
                    push recommendations
                      \<lparr>type = ''safety'',
                       message = ''Chlorine level is too high. Allow levels to decrease before swimming.'',
                       priority = Some ''medium''\<rparr>
                  else recommendations);
               recommendations =
                 (if alkalinity latest < 80 then
                    push recommendations
                      \<lparr>type = ''chemical'',
                       message = ''Total alkalinity is low. Add sodium bicarbonate to increase alkalinity.'',
                       priority = Some ''medium''\<rparr>
                  else if alkalinity latest > 120 then
                    push recommendations
                      \<lparr>type = ''chemical'',
                       message = ''Total alkalinity is high. Add muriatic acid to decrease alkalinity.'',
                       priority = Some ''medium''\<rparr>
                  else recommendations)
           in recommendations))"


section \<open>src/models/MaintenanceLog.js\<close>

text \<open>
  Of a task the score reads its \<open>status\<close>, of an issue its \<open>severity\<close> (an optional
  property of the schema), of the customer feedback its \<open>rating\<close>, a number that the
  schema bounds by 1 and 5 and that need not be whole.
\<close>

datatype task_status = pending | in_progress | completed | skipped | failed

record taskSchema =
  status :: task_status

datatype issue_severity = minor | moderate | major | critical

record issueSchema =
  severity :: "issue_severity option"

record customerFeedbackSchema =
  rating :: "real option"

record maintenanceLogSchema =
  tasks :: "taskSchema list"
  issues :: "issueSchema list"
  customerFeedback :: "customerFeedbackSchema option"

text \<open>
  \<open>calculateQualityScore\<close>. The test \<open>this.customerFeedback && this.customerFeedback.rating\<close>
  is a truthiness test: it holds when the feedback and its rating are present and the
  rating is not 0.
\<close>

definition calculateQualityScore :: "maintenanceLogSchema \<Rightarrow> real" where
  "calculateQualityScore this =
     (let score = 100;
          incompleteTasks =
            length (filter (\<lambda>task. status task = failed \<or> status task = skipped) (tasks this));
          score = score - real incompleteTasks * 10;
          criticalIssues =
            length (filter (\<lambda>issue. severity issue = Some critical) (issues this));
          majorIssues =
            length (filter (\<lambda>issue. severity issue = Some major) (issues this));
          score = score - (real criticalIssues * 20 + real majorIssues * 10);
          score =
            (case customerFeedback this of
               None \<Rightarrow> score
             | Some feedback \<Rightarrow>
                 (case rating feedback of
                    None \<Rightarrow> score
                  | Some rt \<Rightarrow> if rt \<noteq> 0 then score + (rt - 3) * 5 else score))
      in max 0 (min 100 score))"

section \<open>The weekly assessment (routes of the premium features)\<close>

text \<open>
  The request body has passed \<open>weeklyAssessmentSchema\<close>: every property is optional
  (\<^const>\<open>None\<close> is \<open>undefined\<close>), the numbers are numbers, \<open>waterClarity\<close> is one of
  the five values of the schema, and an equipment entry's \<open>status\<close> is any string.
  Of \<open>testResults\<close> the score reads \<open>pH\<close>, \<open>chlorine\<close> and \<open>alkalinity\<close>.
\<close>

record chemistryValues =
  o_pH :: "real option"
  o_chlorine :: "real option"
  o_alkalinity :: "real option"

text \<open>
  \<open><\<close> and \<open>>\<close> between a property that may be \<open>undefined\<close> and a number literal:
  \<open>undefined\<close> converts to \<open>NaN\<close>, and every comparison with \<open>NaN\<close> is false.
\<close>

definition js_lt :: "real option \<Rightarrow> real \<Rightarrow> bool" where
  "js_lt a b = (case a of None \<Rightarrow> False | Some x \<Rightarrow> x < b)"

definition js_gt :: "real option \<Rightarrow> real \<Rightarrow> bool" where
  "js_gt a b = (case a of None \<Rightarrow> False | Some x \<Rightarrow> x > b)"

definition calculateChemistryScore :: "chemistryValues option \<Rightarrow> real" where
  "calculateChemistryScore testResults =
     (case testResults of
        None \<Rightarrow> 50
      | Some results \<Rightarrow>
          (let score = 100;
               score = (if js_lt (o_pH results) 7.2 \<or> js_gt (o_pH results) 7.6
                        then score - 20 else score);
               score = (if js_lt (o_chlorine results) 1.0 \<or> js_gt (o_chlorine results) 3.0
                        then score - 20 else score);
               score = (if js_lt (o_alkalinity results) 80 \<or> js_gt (o_alkalinity results) 120
                        then score - 15 else score)
           in max 0 score))"

datatype waterClarity = crystal_clear | slightly_cloudy | cloudy | very_cloudy | murky

definition clarityScores :: "(waterClarity \<times> real) list" where
  "clarityScores =
     [(crystal_clear, 100), (slightly_cloudy, 80), (cloudy, 60), (very_cloudy, 40), (murky, 20)]"

text \<open>
  \<open>clarityScores[waterClarity] || 70\<close>: 70 when the key is \<open>undefined\<close>, when the table
  has no entry for it, or when the entry is 0.
\<close>

definition calculateClarityScore :: "waterClarity option \<Rightarrow> real" where
  "calculateClarityScore clarity =
     (case clarity of
        None \<Rightarrow> 70
      | Some key \<Rightarrow>
          (case map_of clarityScores key of
             None \<Rightarrow> 70
           | Some v \<Rightarrow> if v \<noteq> 0 then v else 70))"

record equipmentStatusItem =
  eq_equipment :: "string option"
  eq_status :: "string option"

definition calculateEquipmentScore :: "equipmentStatusItem list option \<Rightarrow> real" where
  "calculateEquipmentScore equipmentStatus =
     (case equipmentStatus of
        None \<Rightarrow> 70
      | Some items \<Rightarrow>
          if length items = 0 then 70
          else
            (let workingEquipment =
                   length (filter (\<lambda>eq. eq_status eq = Some ''working'') items);
                 totalEquipment = length items
             in (real workingEquipment / real totalEquipment) * 100))"

definition calculateOverallGrade :: "real \<Rightarrow> real \<Rightarrow> real \<Rightarrow> string" where
  "calculateOverallGrade chemistryScore clarityScore equipmentScore =
     (let avgScore = (chemistryScore + clarityScore + equipmentScore) / 3 in
      if avgScore \<ge> 97 then ''A+''
      else if avgScore \<ge> 93 then ''A''
      else if avgScore \<ge> 87 then ''B+''
      else if avgScore \<ge> 83 then ''B''
      else if avgScore \<ge> 77 then ''C+''
      else if avgScore \<ge> 73 then ''C''
      else if avgScore \<ge> 67 then ''D''
      else ''F'')"

record waterSample =
  testResults :: "chemistryValues option"

record visualInspection =
  waterClarity :: "waterClarity option"
  equipmentStatus :: "equipmentStatusItem list option"

record assessmentData =
  waterSample :: "waterSample option"
  visualInspection :: "visualInspection option"

record weeklyRecommendation =
  w_priority :: string
  w_action :: string
  w_reason :: string
  w_estimatedCost :: real
  w_timeframe :: string
  w_difficulty :: string

record weeklyAlert =
  w_type :: string
  w_severity :: string
  w_message :: string
  w_actionRequired :: bool

record aiAnalysis =
  overallGrade :: string
  chemistryScore :: real
  clarityScore :: real
  equipmentScore :: real
  recommendations :: "weeklyRecommendation list"
  alerts :: "weeklyAlert list"

text \<open>
  \<open>performWeeklyAIAnalysis\<close>. \<open>waterSample?.testResults\<close> is \<open>undefined\<close> when the sample
  or its results are absent; likewise for the two properties of the inspection. The
  result's \<open>trends\<close> is always the empty array and is left out.
\<close>

definition performWeeklyAIAnalysis :: "assessmentData \<Rightarrow> aiAnalysis" where
  "performWeeklyAIAnalysis data =
     (let chemistryScore =
            calculateChemistryScore (Option.bind (waterSample data) testResults);
          clarityScore =
            calculateClarityScore (Option.bind (visualInspection data) waterClarity);
          equipmentScore =
            calculateEquipmentScore (Option.bind (visualInspection data) equipmentStatus);
          overallGrade = calculateOverallGrade chemistryScore clarityScore equipmentScore;
          recommendations = [];
          alerts = [];
          (recommendations, alerts) =
            (if chemistryScore < 70 then
               (push recommendations
                  \<lparr>w_priority = ''high'', w_action = ''Adjust water chemistry'',
                   w_reason = ''Chemical levels are outside optimal range'',
                   w_estimatedCost = 50, w_timeframe = ''24 hours'',
                   w_difficulty = ''easy''\<rparr>,
                push alerts
                  \<lparr>w_type = ''chemistry'', w_severity = ''warning'',
                   w_message = ''Water chemistry requires immediate attention'',
                   w_actionRequired = True\<rparr>)
             else (recommendations, alerts))
      in \<lparr>overallGrade = overallGrade, chemistryScore = chemistryScore,
          clarityScore = clarityScore, equipmentScore = equipmentScore,
          recommendations = recommendations, alerts = alerts\<rparr>)"

section \<open>The consulting routes: trends\<close>

text \<open>
  \<open>calculateTrend\<close> computes with doubles, and its result depends on how they round.
  The value of an arithmetic expression is a \<open>jsnum\<close>: a finite number, one of the two
  infinities, or \<open>NaN\<close>. A finite \<open>jsnum\<close> carries the real value of a double. Each
  operation gives the exact result rounded to the nearest double, ties to the even
  significand (IEEE 754 binary64, as ECMAScript prescribes): 53 significant bits,
  exponents from -1022 to 1023, subnormal numbers below \<open>2^-1022\<close>, an infinity from
  \<open>2^1024 - 2^970\<close> on. A division by zero does not fail: it gives an infinity or
  \<open>NaN\<close>. Zero is the positive zero, which is what a sum that starts from the literal
  \<open>0\<close> gives; a negative number too small for a double rounds to this zero as well.
\<close>

datatype jsnum = Num real | PosInf | NegInf | NaN

definition pow2 :: "int \<Rightarrow> real" where
  "pow2 e = (if 0 \<le> e then 2 ^ nat e else 1 / 2 ^ nat (- e))"

text \<open>
  The binade of a positive number \<open>a\<close>: the exponent \<open>e\<close> with \<open>2^e \<le> a < 2^(e+1)\<close>,
  kept between -1022 (the exponent of the subnormal numbers) and 1024 (beyond the
  largest double). \<open>binade_up\<close> halves a number from 1 on, \<open>binade_down\<close> doubles a
  number below 1.
\<close>

function binade_up :: "real \<Rightarrow> int \<Rightarrow> int" where
  "binade_up m e = (if 2 \<le> m \<and> e < 1024 then binade_up (m / 2) (e + 1) else e)"
  by pat_completeness auto
termination
  by (relation "measure (\<lambda>(m, e). nat (1024 - e))") auto

function binade_down :: "real \<Rightarrow> int \<Rightarrow> int" where
  "binade_down m e = (if m < 1 \<and> - 1022 < e then binade_down (m * 2) (e - 1) else e)"
  by pat_completeness auto
termination
  by (relation "measure (\<lambda>(m, e). nat (e + 1022))") auto

definition binade :: "real \<Rightarrow> int" where
  "binade a = (if 1 \<le> a then binade_up a 0 else binade_down a 0)"

text \<open>The nearest integer, a tie going to the even one.\<close>

definition round_ties_even :: "real \<Rightarrow> int" where
  "round_ties_even y =
     (let f = \<lfloor>y\<rfloor>; d = y - of_int f in
      if d < 1 / 2 then f
      else if d > 1 / 2 then f + 1
      else if even f then f else f + 1)"

text \<open>
  The double nearest to a real number. In the binade \<open>e\<close> the doubles are the multiples
  of \<open>2^(e-52)\<close>. A number of a binade below 1023 rounds to at most \<open>2^1023\<close>; from the
  binade 1023 on, a result that reaches \<open>2^1024\<close> is an infinity.
\<close>

definition round_double :: "real \<Rightarrow> jsnum" where
  "round_double x =
     (if x = 0 then Num 0
      else
        (let a = \<bar>x\<bar>;
             e = binade a;
             ulp = pow2 (e - 52);
             r = of_int (round_ties_even (a / ulp)) * ulp
         in if e < 1023 then Num (if 0 < x then r else - r)
            else if pow2 1024 \<le> r then (if 0 < x then PosInf else NegInf)
            else Num (if 0 < x then r else - r)))"

text \<open>The double that a numeric value of the input denotes.\<close>

definition double_of :: "real \<Rightarrow> real" where
  "double_of x = (case round_double x of Num r \<Rightarrow> r | other \<Rightarrow> 0)"

fun jsnum_add :: "jsnum \<Rightarrow> jsnum \<Rightarrow> jsnum" where
  "jsnum_add NaN y = NaN"
| "jsnum_add x NaN = NaN"
| "jsnum_add PosInf NegInf = NaN"
| "jsnum_add NegInf PosInf = NaN"
| "jsnum_add PosInf y = PosInf"
| "jsnum_add NegInf y = NegInf"
| "jsnum_add (Num a) PosInf = PosInf"
| "jsnum_add (Num a) NegInf = NegInf"
| "jsnum_add (Num a) (Num b) = round_double (a + b)"

fun jsnum_sub :: "jsnum \<Rightarrow> jsnum \<Rightarrow> jsnum" where
  "jsnum_sub NaN y = NaN"
| "jsnum_sub x NaN = NaN"
| "jsnum_sub PosInf PosInf = NaN"
| "jsnum_sub NegInf NegInf = NaN"
| "jsnum_sub PosInf y = PosInf"
| "jsnum_sub NegInf y = NegInf"
| "jsnum_sub (Num a) PosInf = NegInf"
| "jsnum_sub (Num a) NegInf = PosInf"
| "jsnum_sub (Num a) (Num b) = round_double (a - b)"

fun jsnum_mul :: "jsnum \<Rightarrow> jsnum \<Rightarrow> jsnum" where
  "jsnum_mul NaN y = NaN"
| "jsnum_mul x NaN = NaN"
| "jsnum_mul (Num a) (Num b) = round_double (a * b)"
| "jsnum_mul PosInf PosInf = PosInf"
| "jsnum_mul PosInf NegInf = NegInf"
| "jsnum_mul NegInf PosInf = NegInf"
| "jsnum_mul NegInf NegInf = PosInf"
| "jsnum_mul PosInf (Num b) = (if b > 0 then PosInf else if b < 0 then NegInf else NaN)"
| "jsnum_mul NegInf (Num b) = (if b > 0 then NegInf else if b < 0 then PosInf else NaN)"
| "jsnum_mul (Num a) PosInf = (if a > 0 then PosInf else if a < 0 then NegInf else NaN)"
| "jsnum_mul (Num a) NegInf = (if a > 0 then NegInf else if a < 0 then PosInf else NaN)"

fun jsnum_div :: "jsnum \<Rightarrow> jsnum \<Rightarrow> jsnum" where
  "jsnum_div NaN y = NaN"
| "jsnum_div x NaN = NaN"
| "jsnum_div (Num a) (Num b) =
     (if b \<noteq> 0 then round_double (a / b)
      else if a > 0 then PosInf else if a < 0 then NegInf else NaN)"
| "jsnum_div (Num a) PosInf = Num 0"
| "jsnum_div (Num a) NegInf = Num 0"
| "jsnum_div PosInf (Num b) = (if b \<ge> 0 then PosInf else NegInf)"
| "jsnum_div NegInf (Num b) = (if b \<ge> 0 then NegInf else PosInf)"
| "jsnum_div x y = NaN"

fun jsnum_abs :: "jsnum \<Rightarrow> jsnum" where
  "jsnum_abs (Num a) = Num \<bar>a\<bar>"
| "jsnum_abs PosInf = PosInf"
| "jsnum_abs NegInf = PosInf"
| "jsnum_abs NaN = NaN"

fun jsnum_lt :: "jsnum \<Rightarrow> jsnum \<Rightarrow> bool" where
  "jsnum_lt NaN y = False"
| "jsnum_lt x NaN = False"
| "jsnum_lt (Num a) (Num b) = (a < b)"
| "jsnum_lt x PosInf = (x \<noteq> PosInf)"
| "jsnum_lt NegInf y = (y \<noteq> NegInf)"
| "jsnum_lt x y = False"

definition jsnum_gt :: "jsnum \<Rightarrow> jsnum \<Rightarrow> bool" where
  "jsnum_gt x y = jsnum_lt y x"

text \<open>
  \<open>Array.prototype.slice\<close> with indices inside the array, \<open>reduce\<close> with an initial
  value, and \<open>Math.ceil\<close> of half a length.
\<close>

definition slice :: "'a list \<Rightarrow> nat \<Rightarrow> nat \<Rightarrow> 'a list" where
  "slice xs start stop = take (stop - start) (drop start xs)"

definition slice_from :: "'a list \<Rightarrow> nat \<Rightarrow> 'a list" where
  "slice_from xs start = drop start xs"

definition reduce :: "('b \<Rightarrow> 'a \<Rightarrow> 'b) \<Rightarrow> 'b \<Rightarrow> 'a list \<Rightarrow> 'b" where
  "reduce f init xs = foldl f init xs"

definition ceil_half :: "nat \<Rightarrow> nat" where
  "ceil_half n = nat \<lceil>real n / 2\<rceil>"

text \<open>
  The value of the local constant \<open>percentChange\<close> for the array \<open>values\<close>, whose
  elements are numbers.
\<close>

definition percentChange :: "real list \<Rightarrow> jsnum" where
  "percentChange vals =
     (let recent = slice vals 0 (ceil_half (length vals));
          older = slice_from vals (ceil_half (length vals));
          recentAvg =
            jsnum_div (reduce (\<lambda>a b. jsnum_add a (Num b)) (Num 0) recent)
              (Num (real (length recent)));
          olderAvg =
            jsnum_div (reduce (\<lambda>a b. jsnum_add a (Num b)) (Num 0) older)
              (Num (real (length older)))
      in jsnum_mul (jsnum_div (jsnum_sub recentAvg olderAvg) olderAvg) (Num 100))"

text \<open>
  \<open>calculateTrend\<close>. A reading is any object; \<open>r[parameter]\<close> is the look-up of the
  named property, \<open>undefined\<close> (here \<^const>\<open>None\<close>) when the reading has none.
  \<^const>\<open>List.map_filter\<close> is the \<open>map\<close> followed by the \<open>filter\<close> that drops
  \<open>undefined\<close>.
\<close>

definition calculateTrend :: "'r list \<Rightarrow> ('r \<Rightarrow> real option) \<Rightarrow> string" where
  "calculateTrend readings parameter =
     (if length readings < 2 then ''insufficient_data''
      else
        (let vals = List.map_filter parameter readings in
         if length vals < 2 then ''insufficient_data''
         else if jsnum_lt (jsnum_abs (percentChange vals)) (Num 5) then ''stable''
         else if jsnum_gt (percentChange vals) (Num 0) then ''increasing''
         else ''decreasing''))"

section \<open>The consulting routes: the rule-based analysis\<close>

text \<open>
  \<open>String.prototype.toLowerCase\<close> and \<open>String.prototype.includes\<close> (here \<open>string_includes\<close>), on strings of
  ASCII characters.
\<close>

definition toLowerCase_char :: "char \<Rightarrow> char" where
  "toLowerCase_char c =
     (case map_of (zip ''ABCDEFGHIJKLMNOPQRSTUVWXYZ'' ''abcdefghijklmnopqrstuvwxyz'') c of
        None \<Rightarrow> c
      | Some l \<Rightarrow> l)"

definition toLowerCase :: "string \<Rightarrow> string" where
  "toLowerCase s = map toLowerCase_char s"

fun startsWith :: "string \<Rightarrow> string \<Rightarrow> bool" where
  "startsWith s [] = True"
| "startsWith [] (x # xs) = False"
| "startsWith (c # s) (x # xs) = (c = x \<and> startsWith s xs)"

fun string_includes :: "string \<Rightarrow> string \<Rightarrow> bool" where
  "string_includes [] sub = (sub = [])"
| "string_includes (c # s) sub = (startsWith (c # s) sub \<or> string_includes s sub)"

text \<open>
  \<open>generateRuleBasedAnalysis\<close> fills the two arrays \<open>issues\<close> and \<open>recommendations\<close> and
  returns a text that lists them under fixed headings. The model returns the two
  arrays as they stand when the text is composed. The argument \<open>waterChemistry\<close> has
  passed \<open>aiAnalysisSchema\<close>: it may be absent, and so may each of its properties.
\<close>

record ruleBasedArrays =
  rb_issues :: "string list"
  rb_recommendations :: "string list"

text \<open>
  The body of \<open>symptoms.forEach\<close> for one symptom; \<open>pushed\<close> is the array
  \<open>recommendations\<close> as the iteration finds it.
\<close>

definition symptom_step :: "string list \<Rightarrow> string \<Rightarrow> string list" where
  "symptom_step pushed symptom =
     (let recommendations = pushed;
          recommendations =
            (if string_includes (toLowerCase symptom) ''algae'' then
               push recommendations
                 ''Shock treatment with chlorine, brush walls, and run filtration 24/7 until clear''
             else recommendations);
          recommendations =
            (if string_includes (toLowerCase symptom) ''cloudy'' then
               push recommendations
                 ''Check and clean filter, test water chemistry, consider clarifier treatment''
             else recommendations);
          recommendations =
            (if string_includes (toLowerCase symptom) ''smell'' then
               push recommendations
                 ''Test chlorine levels, shock if needed, check pH balance''
             else recommendations)
      in recommendations)"

definition generateRuleBasedAnalysis :: "chemistryValues option \<Rightarrow> string list \<Rightarrow> ruleBasedArrays" where
  "generateRuleBasedAnalysis chemistry symptoms =
     (let issues = [];
          recommendations = [];
          (issues, recommendations) =
            (case chemistry of
               None \<Rightarrow> (issues, recommendations)
             | Some wc \<Rightarrow>
                 (let (issues, recommendations) =
                        (if js_lt (o_pH wc) 7.2 then
                           (push issues ''pH is too low (acidic)'',
                            push recommendations
                              ''Add sodium carbonate (soda ash) to raise pH to 7.2-7.6 range'')
                         else if js_gt (o_pH wc) 7.6 then
                           (push issues ''pH is too high (basic)'',
                            push recommendations
                              ''Add muriatic acid or sodium bisulfate to lower pH to 7.2-7.6 range'')
                         else (issues, recommendations));
                      (issues, recommendations) =
                        (if js_lt (o_chlorine wc) 1.0 then
                           (push issues ''Free chlorine is too low'',
                            push recommendations
                              ''URGENT: Add chlorine shock or liquid chlorine to reach 1.0-3.0 ppm'')
                         else if js_gt (o_chlorine wc) 3.0 then
                           (push issues ''Free chlorine is too high'',
                            push recommendations
                              ''Allow chlorine to naturally decrease before swimming, or add neutralizer'')
                         else (issues, recommendations));
                      (issues, recommendations) =
                        (if js_lt (o_alkalinity wc) 80 then
                           (push issues ''Total alkalinity is low'',
                            push recommendations
                              ''Add sodium bicarbonate to increase alkalinity to 80-120 ppm'')
                         else if js_gt (o_alkalinity wc) 120 then
                           (push issues ''Total alkalinity is high'',
                            push recommendations
                              ''Add muriatic acid carefully to decrease alkalinity'')
                         else (issues, recommendations))
                  in (issues, recommendations)));
          recommendations =
            (if length symptoms > 0 then foldl symptom_step recommendations symptoms
             else recommendations)
      in \<lparr>rb_issues = issues, rb_recommendations = recommendations\<rparr>)"
section \<open>The specification's evaluator, in its own words\<close>

text \<open>
  The three evaluated parameters, the target bands and the verdict of a value against
  a band, as the specification words them. The program has no such function; its
  methods above are compared with these.
\<close>

datatype parameter = PH | Chlorine | Alkalinity

datatype verdict = Below | Within | Above

fun spec_band :: "parameter \<Rightarrow> real \<times> real" where
  "spec_band PH = (7.2, 7.6)"
| "spec_band Chlorine = (1.0, 3.0)"
| "spec_band Alkalinity = (80, 120)"

definition spec_verdict :: "parameter \<Rightarrow> real \<Rightarrow> verdict" where
  "spec_verdict p v =
     (if v < fst (spec_band p) then Below
      else if v > snd (spec_band p) then Above
      else Within)"

fun reading_value :: "parameter \<Rightarrow> waterChemistrySchema \<Rightarrow> real" where
  "reading_value PH r = pH r"
| "reading_value Chlorine r = chlorine r"
| "reading_value Alkalinity r = alkalinity r"

definition spec_staleness :: "waterChemistrySchema \<Rightarrow> int \<Rightarrow> bool" where
  "spec_staleness r now \<longleftrightarrow> now - testedAt r > 604800000"

text \<open>The specification's table of kind and priority per out-of-band verdict.\<close>

fun spec_table :: "parameter \<Rightarrow> verdict \<Rightarrow> (string \<times> string option) option" where
  "spec_table p Within = None"
| "spec_table PH Below = Some (''chemical'', Some ''high'')"
| "spec_table PH Above = Some (''chemical'', Some ''high'')"
| "spec_table Chlorine Below = Some (''chemical'', Some ''urgent'')"
| "spec_table Chlorine Above = Some (''safety'', Some ''medium'')"
| "spec_table Alkalinity Below = Some (''chemical'', Some ''medium'')"
| "spec_table Alkalinity Above = Some (''chemical'', Some ''medium'')"

text \<open>
  The specification's error handling: evaluating a reading that violates its declared
  invariants fails with \<open>InvalidInputError\<close>.
\<close>

datatype spec_error = InvalidInputError

definition spec_checked :: "(waterChemistrySchema \<Rightarrow> 'a) \<Rightarrow> waterChemistrySchema \<Rightarrow> spec_error + 'a" where
  "spec_checked f r =
     (if waterChemistrySchema_validators r then Inr (f r) else Inl InvalidInputError)"

section \<open>The specification's quality score, in its own words\<close>

text \<open>
  Start at 100; subtract 10 for each task that failed or was skipped; subtract 20 for
  each critical and 10 for each major issue; add \<open>(rating - 3) * 5\<close> when a rating is
  present; clamp the result to [0, 100], once, as the last step.
\<close>

fun spec_task_deduction :: "task_status \<Rightarrow> real" where
  "spec_task_deduction failed = 10"
| "spec_task_deduction skipped = 10"
| "spec_task_deduction other = 0"

fun spec_issue_deduction :: "issue_severity option \<Rightarrow> real" where
  "spec_issue_deduction (Some critical) = 20"
| "spec_issue_deduction (Some major) = 10"
| "spec_issue_deduction other = 0"

definition spec_rating_adjustment :: "real option \<Rightarrow> real" where
  "spec_rating_adjustment r = (case r of None \<Rightarrow> 0 | Some rt \<Rightarrow> (rt - 3) * 5)"

definition spec_clamp :: "real \<Rightarrow> real" where
  "spec_clamp x = (if x < 0 then 0 else if x > 100 then 100 else x)"

definition spec_score :: "task_status list \<Rightarrow> issue_severity option list \<Rightarrow> real option \<Rightarrow> real" where
  "spec_score statuses severities r =
     spec_clamp
       (100 - sum_list (map spec_task_deduction statuses)
            - sum_list (map spec_issue_deduction severities)
            + spec_rating_adjustment r)"

text \<open>
  The customer rating of an event, absent when the feedback or its rating is; and the
  three counts the score depends on.
\<close>

definition customerRating :: "maintenanceLogSchema \<Rightarrow> real option" where
  "customerRating this = Option.bind (customerFeedback this) rating"

definition count_incomplete :: "maintenanceLogSchema \<Rightarrow> nat" where
  "count_incomplete this =
     length (filter (\<lambda>task. status task = failed \<or> status task = skipped) (tasks this))"

definition count_critical :: "maintenanceLogSchema \<Rightarrow> nat" where
  "count_critical this = length (filter (\<lambda>issue. severity issue = Some critical) (issues this))"

definition count_major :: "maintenanceLogSchema \<Rightarrow> nat" where
  "count_major this = length (filter (\<lambda>issue. severity issue = Some major) (issues this))"

text \<open>
  What the rating adds to the score in \<open>calculateQualityScore\<close>: nothing unless the
  truthiness test on the rating holds.
\<close>

definition rating_points :: "maintenanceLogSchema \<Rightarrow> real" where
  "rating_points this =
     (case customerFeedback this of
        None \<Rightarrow> 0
      | Some feedback \<Rightarrow>
          (case rating feedback of
             None \<Rightarrow> 0
           | Some rt \<Rightarrow> if rt \<noteq> 0 then (rt - 3) * 5 else 0))"

section \<open>The specification's weekly grade, in its own words\<close>

text \<open>
  The cutoffs, highest first; the first one that the mean reaches gives the letter, and
  a mean below all of them is an F. A value that is missing is not out of its band.
\<close>

definition spec_cutoffs :: "(real \<times> string) list" where
  "spec_cutoffs =
     [(97, ''A+''), (93, ''A''), (87, ''B+''), (83, ''B''), (77, ''C+''), (73, ''C''), (67, ''D'')]"

definition spec_grade :: "real \<Rightarrow> string" where
  "spec_grade avg =
     (case find (\<lambda>(cutoff, letter). avg \<ge> cutoff) spec_cutoffs of
        Some (cutoff, letter) \<Rightarrow> letter
      | None \<Rightarrow> ''F'')"

definition out_of_band :: "parameter \<Rightarrow> real option \<Rightarrow> bool" where
  "out_of_band p v = (case v of None \<Rightarrow> False | Some x \<Rightarrow> spec_verdict p x \<noteq> Within)"

definition working_count :: "equipmentStatusItem list \<Rightarrow> nat" where
  "working_count items = length (filter (\<lambda>eq. eq_status eq = Some ''working'') items)"

section \<open>The specification's trend and symptom rules, in its own words\<close>

text \<open>
  The values come most recent first. The recent half is the first \<open>ceil(n/2)\<close> of them,
  the older half the remainder; the percent change compares their means.
\<close>

definition spec_mean :: "real list \<Rightarrow> real" where
  "spec_mean xs = sum_list xs / real (length xs)"

definition spec_recent_half :: "real list \<Rightarrow> real list" where
  "spec_recent_half vals = take ((length vals + 1) div 2) vals"

definition spec_older_half :: "real list \<Rightarrow> real list" where
  "spec_older_half vals = drop ((length vals + 1) div 2) vals"

definition spec_percent_change :: "real list \<Rightarrow> real" where
  "spec_percent_change vals =
     (spec_mean (spec_recent_half vals) - spec_mean (spec_older_half vals))
       / spec_mean (spec_older_half vals) * 100"

definition spec_trend :: "real list \<Rightarrow> string" where
  "spec_trend vals =
     (if length vals < 2 then ''insufficient_data''
      else if \<bar>spec_percent_change vals\<bar> < 5 then ''stable''
      else if spec_percent_change vals > 0 then ''increasing''
      else ''decreasing'')"

text \<open>
  The same sum, mean and percent change evaluated in doubles, operation by operation.
\<close>

definition double_sum :: "real list \<Rightarrow> jsnum" where
  "double_sum xs = foldl (\<lambda>a b. jsnum_add a (Num b)) (Num 0) xs"

definition double_mean :: "real list \<Rightarrow> jsnum" where
  "double_mean xs = jsnum_div (double_sum xs) (Num (real (length xs)))"

definition double_percent_change :: "real list \<Rightarrow> jsnum" where
  "double_percent_change vals =
     jsnum_mul
       (jsnum_div
          (jsnum_sub (double_mean (spec_recent_half vals)) (double_mean (spec_older_half vals)))
          (double_mean (spec_older_half vals)))
       (Num 100)"

text \<open>
  The recommendations that one symptom brings, by case-insensitive containment of
  \<open>algae\<close>, \<open>cloudy\<close> and \<open>smell\<close>.
\<close>

definition spec_symptom_recommendations :: "string \<Rightarrow> string list" where
  "spec_symptom_recommendations symptom =
     (if string_includes (toLowerCase symptom) ''algae''
      then [''Shock treatment with chlorine, brush walls, and run filtration 24/7 until clear'']
      else []) @
     (if string_includes (toLowerCase symptom) ''cloudy''
      then [''Check and clean filter, test water chemistry, consider clarifier treatment'']
      else []) @
     (if string_includes (toLowerCase symptom) ''smell''
      then [''Test chlorine levels, shock if needed, check pH balance'']
      else [])"

section \<open>The latest reading\<close>

lemma latestWaterChemistry_None_iff:
  "latestWaterChemistry this = None \<longleftrightarrow> waterChemistry this = []"
proof
  assume none: "latestWaterChemistry this = None"
  show "waterChemistry this = []"
  proof (rule ccontr)
    assume ne: "waterChemistry this \<noteq> []"
    then have "sort_key (\<lambda>a. - testedAt a) (waterChemistry this) \<noteq> []"
      by (metis length_0_conv length_sort)
    with ne none show False
      by (simp add: latestWaterChemistry_def split: list.splits)
  qed
next
  assume "waterChemistry this = []"
  then show "latestWaterChemistry this = None"
    by (simp add: latestWaterChemistry_def)
qed

lemma latestWaterChemistry_single:
  "latestWaterChemistry \<lparr>waterChemistry = [r]\<rparr> = Some r"
  by (simp add: latestWaterChemistry_def)

lemma latestWaterChemistry_mem:
  assumes "latestWaterChemistry this = Some r"
  shows "r \<in> set (waterChemistry this)"
proof -
  from assms obtain rs where "sort_key (\<lambda>a. - testedAt a) (waterChemistry this) = r # rs"
    by (auto simp: latestWaterChemistry_def split: if_splits list.splits)
  then have "r \<in> set (sort_key (\<lambda>a. - testedAt a) (waterChemistry this))"
    by simp
  then show ?thesis by simp
qed

lemma latestWaterChemistry_max:
  assumes "latestWaterChemistry this = Some r" and "x \<in> set (waterChemistry this)"
  shows "testedAt x \<le> testedAt r"
proof -
  let ?s = "sort_key (\<lambda>a. - testedAt a) (waterChemistry this)"
  from assms(1) obtain rs where s: "?s = r # rs"
    by (auto simp: latestWaterChemistry_def split: if_splits list.splits)
  have "sorted (map (\<lambda>a. - testedAt a) ?s)"
    by (rule sorted_sort_key)
  with s have "\<forall>y \<in> set rs. - testedAt r \<le> - testedAt y"
    by simp
  moreover from assms(2) have "x \<in> set ?s" by simp
  ultimately show ?thesis using s by auto
qed

section \<open>needsAttention\<close>

lemma spec_verdict_within_iff:
  "spec_verdict p v = Within \<longleftrightarrow> fst (spec_band p) \<le> v \<and> v \<le> snd (spec_band p)"
  by (auto simp: spec_verdict_def)

text \<open>
  Claim C1. A parameter's verdict is \<open>within\<close> exactly when the value lies in its band,
  both ends included (pH in [7.2, 7.6], chlorine in [1.0, 3.0], alkalinity in
  [80, 120]); a reading is stale exactly when \<open>now\<close> minus its date is strictly more than
  7 days; for a pool with a latest reading \<open>needsAttention\<close> is true exactly when that
  reading is stale or some verdict is not \<open>within\<close>; and for a pool with no reading at
  all \<open>needsAttention\<close> is true.
\<close>

theorem needsAttention_evaluator:
  "(spec_verdict PH v = Within \<longleftrightarrow> 7.2 \<le> v \<and> v \<le> 7.6) \<and>
   (spec_verdict Chlorine v = Within \<longleftrightarrow> 1.0 \<le> v \<and> v \<le> 3.0) \<and>
   (spec_verdict Alkalinity v = Within \<longleftrightarrow> 80 \<le> v \<and> v \<le> 120) \<and>
   (spec_staleness r now \<longleftrightarrow> now - testedAt r > 7 * 24 * 60 * 60 * 1000) \<and>
   (latestWaterChemistry this = Some r \<longrightarrow>
      (needsAttention this now \<longleftrightarrow>
         spec_staleness r now \<or>
         spec_verdict PH (pH r) \<noteq> Within \<or>
         spec_verdict Chlorine (chlorine r) \<noteq> Within \<or>
         spec_verdict Alkalinity (alkalinity r) \<noteq> Within)) \<and>
   (waterChemistry this = [] \<longrightarrow> needsAttention this now)"
proof (intro conjI impI)
  show "spec_verdict PH v = Within \<longleftrightarrow> 7.2 \<le> v \<and> v \<le> 7.6"
    by (simp add: spec_verdict_within_iff)
  show "spec_verdict Chlorine v = Within \<longleftrightarrow> 1.0 \<le> v \<and> v \<le> 3.0"
    by (simp add: spec_verdict_within_iff)
  show "spec_verdict Alkalinity v = Within \<longleftrightarrow> 80 \<le> v \<and> v \<le> 120"
    by (simp add: spec_verdict_within_iff)
  show "spec_staleness r now \<longleftrightarrow> now - testedAt r > 7 * 24 * 60 * 60 * 1000"
    by (simp add: spec_staleness_def)
next
  assume latest: "latestWaterChemistry this = Some r"
  have "needsAttention this now \<longleftrightarrow>
          \<not> (7.2 \<le> pH r \<and> pH r \<le> 7.6) \<or> \<not> (1.0 \<le> chlorine r \<and> chlorine r \<le> 3.0) \<or>
          \<not> (80 \<le> alkalinity r \<and> alkalinity r \<le> 120) \<or>
          \<not> (now - testedAt r \<le> 604800000)"
    using latest by (auto simp: needsAttention_def Let_def)
  also have "\<dots> \<longleftrightarrow>
          spec_staleness r now \<or> spec_verdict PH (pH r) \<noteq> Within \<or>
          spec_verdict Chlorine (chlorine r) \<noteq> Within \<or>
          spec_verdict Alkalinity (alkalinity r) \<noteq> Within"
    unfolding spec_verdict_within_iff spec_staleness_def by auto
  finally show "needsAttention this now \<longleftrightarrow>
          spec_staleness r now \<or> spec_verdict PH (pH r) \<noteq> Within \<or>
          spec_verdict Chlorine (chlorine r) \<noteq> Within \<or>
          spec_verdict Alkalinity (alkalinity r) \<noteq> Within" .
next
  assume "waterChemistry this = []"
  then have "latestWaterChemistry this = None"
    by (simp add: latestWaterChemistry_None_iff)
  then show "needsAttention this now"
    by (simp add: needsAttention_def)
qed

text \<open>
  The theorem at a pool whose only reading is pH 7.8, chlorine 0.5, alkalinity 100,
  taken one second before \<open>now\<close>: the reading is fresh, pH is not within its band,
  so the pool needs attention; so does the pool with no reading.
\<close>

theorem needsAttention_evaluator_witness:
  "needsAttention
     \<lparr>waterChemistry =
        [\<lparr>pH = 7.8, chlorine = 0.5, alkalinity = 100, hardness = 200, cyanuricAcid = 0,
          temperature = 80, testedAt = 0\<rparr>]\<rparr> 1000 \<and>
   \<not> spec_staleness
     \<lparr>pH = 7.8, chlorine = 0.5, alkalinity = 100, hardness = 200, cyanuricAcid = 0,
      temperature = 80, testedAt = 0\<rparr> 1000 \<and>
   spec_verdict PH 7.8 \<noteq> Within \<and>
   needsAttention \<lparr>waterChemistry = []\<rparr> 1000"
proof -
  let ?r = "\<lparr>pH = 7.8, chlorine = 0.5, alkalinity = 100, hardness = 200, cyanuricAcid = 0,
             temperature = 80, testedAt = 0\<rparr>"
  let ?p = "\<lparr>waterChemistry = [?r]\<rparr>"
  have latest: "latestWaterChemistry ?p = Some ?r"
    by (rule latestWaterChemistry_single)
  have ph: "spec_verdict PH 7.8 \<noteq> Within"
    using needsAttention_evaluator [of "7.8" ?r 1000 ?p] by simp
  have fresh: "\<not> spec_staleness ?r 1000"
    using needsAttention_evaluator [of "7.8" ?r 1000 ?p] by simp
  have "needsAttention ?p 1000"
    using needsAttention_evaluator [of "7.8" ?r 1000 ?p] latest ph by simp
  moreover have "needsAttention \<lparr>waterChemistry = []\<rparr> 1000"
    using needsAttention_evaluator [of "7.8" ?r 1000 "\<lparr>waterChemistry = []\<rparr>"] by simp
  ultimately show ?thesis using ph fresh by simp
qed

section \<open>getRecommendations on a pool with a reading\<close>

text \<open>
  Claim C5. For a pool with a latest reading, each parameter out of its band adds
  exactly one recommendation, with the kind and priority of the specification's table
  (pH low or high: chemical, high; chlorine low: chemical, urgent; chlorine high:
  safety, medium; alkalinity low or high: chemical, medium), and the recommendations
  stand in the order pH, chlorine, alkalinity. The reading with pH 7.8, chlorine 0.5
  and alkalinity 100 gives exactly two: lower pH (high), then add chlorine (urgent).
\<close>

theorem getRecommendations_table:
  "(latestWaterChemistry this = Some r \<longrightarrow>
      map (\<lambda>x. (type x, priority x)) (getRecommendations this) =
        List.map_filter (\<lambda>p. spec_table p (spec_verdict p (reading_value p r)))
          [PH, Chlorine, Alkalinity]) \<and>
   (latestWaterChemistry this = Some r \<longrightarrow>
      length (getRecommendations this) =
        length (filter (\<lambda>p. spec_verdict p (reading_value p r) \<noteq> Within)
          [PH, Chlorine, Alkalinity])) \<and>
   (latestWaterChemistry this = Some r \<and> pH r = 7.8 \<and> chlorine r = 0.5 \<and> alkalinity r = 100 \<longrightarrow>
      getRecommendations this =
        [\<lparr>type = ''chemical'',
          message = ''pH is too high. Add muriatic acid or sodium bisulfate to lower pH.'',
          priority = Some ''high''\<rparr>,
         \<lparr>type = ''chemical'',
          message = ''Chlorine level is too low. Add chlorine shock or liquid chlorine.'',
          priority = Some ''urgent''\<rparr>])"
proof (intro conjI impI)
  assume latest: "latestWaterChemistry this = Some r"
  show "map (\<lambda>x. (type x, priority x)) (getRecommendations this) =
        List.map_filter (\<lambda>p. spec_table p (spec_verdict p (reading_value p r)))
          [PH, Chlorine, Alkalinity]"
    using latest
    by (simp add: getRecommendations_def Let_def push_def spec_verdict_def map_filter_simps)
  show "length (getRecommendations this) =
        length (filter (\<lambda>p. spec_verdict p (reading_value p r) \<noteq> Within)
          [PH, Chlorine, Alkalinity])"
    using latest
    by (simp add: getRecommendations_def Let_def push_def spec_verdict_def)
next
  assume "latestWaterChemistry this = Some r \<and> pH r = 7.8 \<and> chlorine r = 0.5 \<and> alkalinity r = 100"
  then show "getRecommendations this =
        [\<lparr>type = ''chemical'',
          message = ''pH is too high. Add muriatic acid or sodium bisulfate to lower pH.'',
          priority = Some ''high''\<rparr>,
         \<lparr>type = ''chemical'',
          message = ''Chlorine level is too low. Add chlorine shock or liquid chlorine.'',
          priority = Some ''urgent''\<rparr>]"
    by (simp add: getRecommendations_def Let_def push_def)
qed

text \<open>The theorem at the pool whose only reading is pH 7.8, chlorine 0.5, alkalinity 100.\<close>

theorem getRecommendations_table_witness:
  "getRecommendations
     \<lparr>waterChemistry =
        [\<lparr>pH = 7.8, chlorine = 0.5, alkalinity = 100, hardness = 200, cyanuricAcid = 0,
          temperature = 80, testedAt = 0\<rparr>]\<rparr> =
     [\<lparr>type = ''chemical'',
       message = ''pH is too high. Add muriatic acid or sodium bisulfate to lower pH.'',
       priority = Some ''high''\<rparr>,
      \<lparr>type = ''chemical'',
       message = ''Chlorine level is too low. Add chlorine shock or liquid chlorine.'',
       priority = Some ''urgent''\<rparr>]"
proof -
  let ?r = "\<lparr>pH = 7.8, chlorine = 0.5, alkalinity = 100, hardness = 200, cyanuricAcid = 0,
             temperature = 80, testedAt = 0\<rparr>"
  have "latestWaterChemistry \<lparr>waterChemistry = [?r]\<rparr> = Some ?r \<and>
        pH ?r = 7.8 \<and> chlorine ?r = 0.5 \<and> alkalinity ?r = 100"
    by (simp add: latestWaterChemistry_single)
  with getRecommendations_table [of "\<lparr>waterChemistry = [?r]\<rparr>" ?r] show ?thesis
    by blast
qed

section \<open>calculateQualityScore\<close>

lemma task_deductions_count:
  "sum_list (map spec_task_deduction (map status ts)) =
     real (length (filter (\<lambda>task. status task = failed \<or> status task = skipped) ts)) * 10"
proof (induction ts)
  case Nil
  then show ?case by simp
next
  case (Cons t ts)
  then show ?case by (cases "status t") simp_all
qed

lemma issue_deductions_count:
  "sum_list (map spec_issue_deduction (map severity xs)) =
     real (length (filter (\<lambda>issue. severity issue = Some critical) xs)) * 20 +
     real (length (filter (\<lambda>issue. severity issue = Some major) xs)) * 10"
proof (induction xs)
  case Nil
  then show ?case by simp
next
  case (Cons x xs)
  show ?case
  proof (cases "severity x")
    case None
    with Cons show ?thesis by simp
  next
    case (Some s)
    with Cons show ?thesis by (cases s) simp_all
  qed
qed

lemma spec_clamp_max_min: "spec_clamp x = max 0 (min 100 x)"
  by (simp add: spec_clamp_def max_def min_def)

lemma calculateQualityScore_counts:
  "calculateQualityScore this =
     spec_clamp
       (100 - real (count_incomplete this) * 10
            - (real (count_critical this) * 20 + real (count_major this) * 10)
            + rating_points this)"
proof -
  let ?base = "100 - real (count_incomplete this) * 10
            - (real (count_critical this) * 20 + real (count_major this) * 10)"
  have "(case customerFeedback this of
           None \<Rightarrow> ?base
         | Some feedback \<Rightarrow>
             (case rating feedback of
                None \<Rightarrow> ?base
              | Some rt \<Rightarrow> if rt \<noteq> 0 then ?base + (rt - 3) * 5 else ?base)) =
        ?base + rating_points this"
    by (simp add: rating_points_def split: option.splits)
  then show ?thesis
    by (simp only: calculateQualityScore_def Let_def spec_clamp_max_min count_incomplete_def
        count_critical_def count_major_def)
qed

lemma rating_points_spec:
  assumes "customerRating this \<noteq> Some 0"
  shows "rating_points this = spec_rating_adjustment (customerRating this)"
  using assms
  by (auto simp: rating_points_def spec_rating_adjustment_def customerRating_def
      split: option.splits)

text \<open>
  Claim C2. The quality score of a maintenance event is 100, minus 10 for each task
  whose status is failed or skipped, minus 20 for each critical and 10 for each major
  issue (minor and moderate issues count for nothing), plus \<open>(rating - 3) * 5\<close> when a
  customer rating is present, clamped to [0, 100] once, as the last step. The event
  with tasks completed, failed, completed, one critical issue and rating 5 scores 80.
  A rating is a number from 1 to 5; the theorem needs only that it is not 0.
\<close>

theorem calculateQualityScore_spec:
  "(customerRating this \<noteq> Some 0 \<longrightarrow>
      calculateQualityScore this =
        spec_score (map status (tasks this)) (map severity (issues this)) (customerRating this)) \<and>
   calculateQualityScore
     \<lparr>tasks = [\<lparr>status = completed\<rparr>, \<lparr>status = failed\<rparr>, \<lparr>status = completed\<rparr>],
      issues = [\<lparr>severity = Some critical\<rparr>],
      customerFeedback = Some \<lparr>rating = Some 5\<rparr>\<rparr> = 80"
proof (intro conjI impI)
  assume nz: "customerRating this \<noteq> Some 0"
  have adj: "rating_points this = spec_rating_adjustment (customerRating this)"
    using nz by (rule rating_points_spec)
  show "calculateQualityScore this =
        spec_score (map status (tasks this)) (map severity (issues this)) (customerRating this)"
    unfolding calculateQualityScore_counts adj spec_score_def task_deductions_count
      issue_deductions_count count_incomplete_def count_critical_def count_major_def
    by (simp add: algebra_simps)
next
  show "calculateQualityScore
     \<lparr>tasks = [\<lparr>status = completed\<rparr>, \<lparr>status = failed\<rparr>, \<lparr>status = completed\<rparr>],
      issues = [\<lparr>severity = Some critical\<rparr>],
      customerFeedback = Some \<lparr>rating = Some 5\<rparr>\<rparr> = 80"
    by (simp add: calculateQualityScore_def Let_def)
qed

text \<open>
  The theorem at an event with eleven failed tasks and rating 5: the sum is
  \<open>100 - 110 + 10 = 0\<close>, and the single clamp at the end leaves 0 (a clamp after each
  step would have given 10).
\<close>

theorem calculateQualityScore_spec_witness:
  "customerRating
     \<lparr>tasks = replicate 11 \<lparr>status = failed\<rparr>, issues = [],
      customerFeedback = Some \<lparr>rating = Some 5\<rparr>\<rparr> \<noteq> Some 0 \<and>
   calculateQualityScore
     \<lparr>tasks = replicate 11 \<lparr>status = failed\<rparr>, issues = [],
      customerFeedback = Some \<lparr>rating = Some 5\<rparr>\<rparr> =
     spec_score (replicate 11 failed) [] (Some 5) \<and>
   spec_score (replicate 11 failed) [] (Some 5) = 0"
proof -
  let ?e = "\<lparr>tasks = replicate 11 \<lparr>status = failed\<rparr>, issues = [],
             customerFeedback = Some \<lparr>rating = Some 5\<rparr>\<rparr>"
  have r: "customerRating ?e = Some 5"
    by (simp add: customerRating_def)
  then have nz: "customerRating ?e \<noteq> Some 0"
    by simp
  with calculateQualityScore_spec [of ?e]
  have "calculateQualityScore ?e =
          spec_score (map status (tasks ?e)) (map severity (issues ?e)) (customerRating ?e)"
    by blast
  then have "calculateQualityScore ?e = spec_score (replicate 11 failed) [] (Some 5)"
    by (simp add: r)
  moreover have "spec_score (replicate 11 failed) [] (Some 5) = 0"
    by (simp add: spec_score_def spec_clamp_def spec_rating_adjustment_def sum_list_replicate)
  ultimately show ?thesis using nz by simp
qed

lemma spec_clamp_mono: "x \<le> y \<Longrightarrow> spec_clamp x \<le> spec_clamp y"
  by (simp add: spec_clamp_def)

lemma spec_clamp_range: "0 \<le> spec_clamp x \<and> spec_clamp x \<le> 100"
  by (simp add: spec_clamp_def)

text \<open>
  Claim C7. With the customer feedback held fixed, the quality score does not increase
  when the number of failed or skipped tasks, of critical issues, or of major issues
  grows; and for every event the score lies in [0, 100], also for an event with 50
  critical issues, whose score is 0.
\<close>

theorem calculateQualityScore_monotone:
  "(customerFeedback a = customerFeedback b \<and>
    count_incomplete a \<le> count_incomplete b \<and>
    count_critical a \<le> count_critical b \<and>
    count_major a \<le> count_major b \<longrightarrow>
      calculateQualityScore b \<le> calculateQualityScore a) \<and>
   0 \<le> calculateQualityScore a \<and> calculateQualityScore a \<le> 100 \<and>
   calculateQualityScore
     \<lparr>tasks = [], issues = replicate 50 \<lparr>severity = Some critical\<rparr>,
      customerFeedback = None\<rparr> = 0"
proof (intro conjI impI)
  assume h: "customerFeedback a = customerFeedback b \<and>
    count_incomplete a \<le> count_incomplete b \<and>
    count_critical a \<le> count_critical b \<and>
    count_major a \<le> count_major b"
  then have r: "rating_points a = rating_points b"
    by (simp add: rating_points_def)
  from h have "real (count_incomplete a) \<le> real (count_incomplete b)"
    and "real (count_critical a) \<le> real (count_critical b)"
    and "real (count_major a) \<le> real (count_major b)"
    by simp_all
  then have "100 - real (count_incomplete b) * 10
            - (real (count_critical b) * 20 + real (count_major b) * 10)
            + rating_points b
         \<le> 100 - real (count_incomplete a) * 10
            - (real (count_critical a) * 20 + real (count_major a) * 10)
            + rating_points a"
    using r by linarith
  then show "calculateQualityScore b \<le> calculateQualityScore a"
    unfolding calculateQualityScore_counts by (rule spec_clamp_mono)
next
  show "0 \<le> calculateQualityScore a"
    unfolding calculateQualityScore_counts using spec_clamp_range by blast
  show "calculateQualityScore a \<le> 100"
    unfolding calculateQualityScore_counts using spec_clamp_range by blast
  show "calculateQualityScore
     \<lparr>tasks = [], issues = replicate 50 \<lparr>severity = Some critical\<rparr>,
      customerFeedback = None\<rparr> = 0"
    by (simp add: calculateQualityScore_def Let_def)
qed

text \<open>
  The theorem at two events without feedback: one failed task against one failed and
  one skipped task, a critical and a major issue.
\<close>

theorem calculateQualityScore_monotone_witness:
  "calculateQualityScore
     \<lparr>tasks = [\<lparr>status = failed\<rparr>, \<lparr>status = skipped\<rparr>],
      issues = [\<lparr>severity = Some critical\<rparr>, \<lparr>severity = Some major\<rparr>],
      customerFeedback = None\<rparr>
   \<le> calculateQualityScore
     \<lparr>tasks = [\<lparr>status = failed\<rparr>], issues = [], customerFeedback = None\<rparr> \<and>
   calculateQualityScore
     \<lparr>tasks = [\<lparr>status = failed\<rparr>], issues = [], customerFeedback = None\<rparr> = 90"
proof -
  let ?a = "\<lparr>tasks = [\<lparr>status = failed\<rparr>], issues = [], customerFeedback = None\<rparr>"
  let ?b = "\<lparr>tasks = [\<lparr>status = failed\<rparr>, \<lparr>status = skipped\<rparr>],
      issues = [\<lparr>severity = Some critical\<rparr>, \<lparr>severity = Some major\<rparr>],
      customerFeedback = None\<rparr>"
  have "customerFeedback ?a = customerFeedback ?b \<and>
    count_incomplete ?a \<le> count_incomplete ?b \<and>
    count_critical ?a \<le> count_critical ?b \<and>
    count_major ?a \<le> count_major ?b"
    by (simp add: count_incomplete_def count_critical_def count_major_def)
  with calculateQualityScore_monotone [of ?a ?b]
  have "calculateQualityScore ?b \<le> calculateQualityScore ?a"
    by blast
  moreover have "calculateQualityScore ?a = 90"
    by (simp add: calculateQualityScore_def Let_def)
  ultimately show ?thesis by simp
qed

section \<open>Readings outside the declared ranges\<close>

text \<open>
  The specification lets the evaluation of a reading that violates its declared ranges
  fail with \<open>InvalidInputError\<close>. The methods of the model have no failing branch.
  At the reading with pH 20 the validators of the schema do not hold and the
  specification's checked evaluation fails, while \<open>getRecommendations\<close> returns the
  recommendation for a high pH and \<open>needsAttention\<close> returns true.
\<close>

theorem invalid_reading_counterexample:
  "\<not> waterChemistrySchema_validators
       \<lparr>pH = 20, chlorine = 2, alkalinity = 100, hardness = 200, cyanuricAcid = 0,
        temperature = 80, testedAt = 0\<rparr> \<and>
   spec_checked (\<lambda>r. getRecommendations \<lparr>waterChemistry = [r]\<rparr>)
       \<lparr>pH = 20, chlorine = 2, alkalinity = 100, hardness = 200, cyanuricAcid = 0,
        temperature = 80, testedAt = 0\<rparr> = Inl InvalidInputError \<and>
   getRecommendations
       \<lparr>waterChemistry =
          [\<lparr>pH = 20, chlorine = 2, alkalinity = 100, hardness = 200, cyanuricAcid = 0,
            temperature = 80, testedAt = 0\<rparr>]\<rparr> =
     [\<lparr>type = ''chemical'',
       message = ''pH is too high. Add muriatic acid or sodium bisulfate to lower pH.'',
       priority = Some ''high''\<rparr>] \<and>
   needsAttention
       \<lparr>waterChemistry =
          [\<lparr>pH = 20, chlorine = 2, alkalinity = 100, hardness = 200, cyanuricAcid = 0,
            temperature = 80, testedAt = 0\<rparr>]\<rparr> 1000"
  by (simp add: waterChemistrySchema_validators_def spec_checked_def getRecommendations_def
      needsAttention_def latestWaterChemistry_single Let_def push_def)

text \<open>
  Claim C8, as the program has it. When the latest reading is outside a declared range
  (pH above 14 or below 0, a negative chlorine or alkalinity), the methods return as
  for any other reading: \<open>needsAttention\<close> is true and \<open>getRecommendations\<close> holds the
  band recommendation of that parameter.
\<close>

theorem invalid_reading_evaluated:
  assumes latest: "latestWaterChemistry this = Some r"
  shows "(14 < pH r \<longrightarrow>
            needsAttention this now \<and>
            \<lparr>type = ''chemical'',
             message = ''pH is too high. Add muriatic acid or sodium bisulfate to lower pH.'',
             priority = Some ''high''\<rparr> \<in> set (getRecommendations this)) \<and>
         (pH r < 0 \<longrightarrow>
            needsAttention this now \<and>
            \<lparr>type = ''chemical'',
             message = ''pH is too low. Add sodium carbonate (soda ash) to raise pH.'',
             priority = Some ''high''\<rparr> \<in> set (getRecommendations this)) \<and>
         (chlorine r < 0 \<longrightarrow>
            needsAttention this now \<and>
            \<lparr>type = ''chemical'',
             message = ''Chlorine level is too low. Add chlorine shock or liquid chlorine.'',
             priority = Some ''urgent''\<rparr> \<in> set (getRecommendations this)) \<and>
         (alkalinity r < 0 \<longrightarrow>
            needsAttention this now \<and>
            \<lparr>type = ''chemical'',
             message = ''Total alkalinity is low. Add sodium bicarbonate to increase alkalinity.'',
             priority = Some ''medium''\<rparr> \<in> set (getRecommendations this))"
proof (intro conjI impI)
  assume "14 < pH r"
  then show "needsAttention this now"
    using latest by (simp add: needsAttention_def Let_def)
next
  assume "14 < pH r"
  then show "\<lparr>type = ''chemical'',
             message = ''pH is too high. Add muriatic acid or sodium bisulfate to lower pH.'',
             priority = Some ''high''\<rparr> \<in> set (getRecommendations this)"
    using latest by (simp add: getRecommendations_def Let_def push_def)
next
  assume "pH r < 0"
  then show "needsAttention this now"
    using latest by (simp add: needsAttention_def Let_def)
next
  assume "pH r < 0"
  then show "\<lparr>type = ''chemical'',
             message = ''pH is too low. Add sodium carbonate (soda ash) to raise pH.'',
             priority = Some ''high''\<rparr> \<in> set (getRecommendations this)"
    using latest by (simp add: getRecommendations_def Let_def push_def)
next
  assume "chlorine r < 0"
  then show "needsAttention this now"
    using latest by (simp add: needsAttention_def Let_def)
next
  assume "chlorine r < 0"
  then show "\<lparr>type = ''chemical'',
             message = ''Chlorine level is too low. Add chlorine shock or liquid chlorine.'',
             priority = Some ''urgent''\<rparr> \<in> set (getRecommendations this)"
    using latest by (simp add: getRecommendations_def Let_def push_def)
next
  assume "alkalinity r < 0"
  then show "needsAttention this now"
    using latest by (simp add: needsAttention_def Let_def)
next
  assume "alkalinity r < 0"
  then show "\<lparr>type = ''chemical'',
             message = ''Total alkalinity is low. Add sodium bicarbonate to increase alkalinity.'',
             priority = Some ''medium''\<rparr> \<in> set (getRecommendations this)"
    using latest by (simp add: getRecommendations_def Let_def push_def)
qed

text \<open>The theorem at the pool whose only reading has pH 20.\<close>

theorem invalid_reading_evaluated_witness:
  "needsAttention
       \<lparr>waterChemistry =
          [\<lparr>pH = 20, chlorine = 2, alkalinity = 100, hardness = 200, cyanuricAcid = 0,
            temperature = 80, testedAt = 0\<rparr>]\<rparr> 1000 \<and>
   \<lparr>type = ''chemical'',
    message = ''pH is too high. Add muriatic acid or sodium bisulfate to lower pH.'',
    priority = Some ''high''\<rparr>
     \<in> set (getRecommendations
       \<lparr>waterChemistry =
          [\<lparr>pH = 20, chlorine = 2, alkalinity = 100, hardness = 200, cyanuricAcid = 0,
            temperature = 80, testedAt = 0\<rparr>]\<rparr>)"
proof -
  let ?r = "\<lparr>pH = 20, chlorine = 2, alkalinity = 100, hardness = 200, cyanuricAcid = 0,
             temperature = 80, testedAt = 0\<rparr>"
  have latest: "latestWaterChemistry \<lparr>waterChemistry = [?r]\<rparr> = Some ?r"
    by (rule latestWaterChemistry_single)
  have "14 < pH ?r" by simp
  with invalid_reading_evaluated [OF latest, of 1000] show ?thesis
    by blast
qed

section \<open>The weekly grade\<close>

lemma out_of_band_js:
  "out_of_band p v \<longleftrightarrow> js_lt v (fst (spec_band p)) \<or> js_gt v (snd (spec_band p))"
  by (auto simp: out_of_band_def js_lt_def js_gt_def spec_verdict_def split: option.splits)

lemma calculateChemistryScore_Some:
  "calculateChemistryScore (Some t) =
     100 - (if out_of_band PH (o_pH t) then 20 else 0)
         - (if out_of_band Chlorine (o_chlorine t) then 20 else 0)
         - (if out_of_band Alkalinity (o_alkalinity t) then 15 else 0)"
  by (simp add: calculateChemistryScore_def Let_def out_of_band_js)

lemma calculateOverallGrade_spec_grade:
  "calculateOverallGrade c cl e = spec_grade ((c + cl + e) / 3)"
  by (simp add: calculateOverallGrade_def spec_grade_def spec_cutoffs_def Let_def)

lemma calculateClarityScore_table:
  "calculateClarityScore (Some crystal_clear) = 100 \<and>
   calculateClarityScore (Some slightly_cloudy) = 80 \<and>
   calculateClarityScore (Some cloudy) = 60 \<and>
   calculateClarityScore (Some very_cloudy) = 40 \<and>
   calculateClarityScore (Some murky) = 20 \<and>
   calculateClarityScore None = 70"
  by (simp add: calculateClarityScore_def clarityScores_def)

lemma calculateEquipmentScore_cases:
  "calculateEquipmentScore None = 70 \<and>
   calculateEquipmentScore (Some []) = 70 \<and>
   (items \<noteq> [] \<longrightarrow>
      calculateEquipmentScore (Some items) =
        100 * real (working_count items) / real (length items))"
  by (simp add: calculateEquipmentScore_def working_count_def Let_def)

text \<open>
  The specification's example: clarity \<open>very_cloudy\<close> scores 40, three of four pieces of
  equipment working score 75, test results with only pH out of its band score 80, the
  mean is 65. The specification gives the grade D for it; 65 is below the cutoff 67 of
  a D, and \<open>calculateOverallGrade\<close> returns F.
\<close>

theorem weekly_grade_counterexample:
  "calculateClarityScore (Some very_cloudy) = 40 \<and>
   calculateEquipmentScore
     (Some [\<lparr>eq_equipment = Some ''pump'', eq_status = Some ''working''\<rparr>,
            \<lparr>eq_equipment = Some ''filter'', eq_status = Some ''working''\<rparr>,
            \<lparr>eq_equipment = Some ''heater'', eq_status = Some ''working''\<rparr>,
            \<lparr>eq_equipment = Some ''skimmer'', eq_status = Some ''broken''\<rparr>]) = 75 \<and>
   calculateChemistryScore
     (Some \<lparr>o_pH = Some 7.8, o_chlorine = Some 2, o_alkalinity = Some 100\<rparr>) = 80 \<and>
   (80 + 40 + 75) / 3 = (65 :: real) \<and>
   calculateOverallGrade 80 40 75 = ''F'' \<and>
   calculateOverallGrade 80 40 75 \<noteq> ''D''"
  by (simp add: calculateClarityScore_def clarityScores_def calculateEquipmentScore_def
      calculateChemistryScore_def calculateOverallGrade_def js_lt_def js_gt_def Let_def)

text \<open>
  Claim C4, with the grade of the example as the program and the cutoffs give it. The
  clarity score is read off the table (100, 80, 60, 40, 20), and is 70 for a missing
  value; the equipment score is 100 times the share of working entries, and 70 without
  entries; the chemistry score of present test results is 100 minus 20 for pH, 20 for
  chlorine and 15 for alkalinity out of band, and is never negative; the grade is the
  letter of the first cutoff, highest first, that the mean of the three scores reaches,
  F if it reaches none. So (100, 100, 100) is an A+, (0, 0, 0) an F, and the scores
  40, 75 and 80 have the mean 65 and the grade F.
\<close>

theorem weekly_grade_scores:
  "calculateClarityScore (Some crystal_clear) = 100 \<and>
   calculateClarityScore (Some slightly_cloudy) = 80 \<and>
   calculateClarityScore (Some cloudy) = 60 \<and>
   calculateClarityScore (Some very_cloudy) = 40 \<and>
   calculateClarityScore (Some murky) = 20 \<and>
   calculateClarityScore None = 70 \<and>
   calculateEquipmentScore None = 70 \<and>
   calculateEquipmentScore (Some []) = 70 \<and>
   (items \<noteq> [] \<longrightarrow>
      calculateEquipmentScore (Some items) =
        100 * real (working_count items) / real (length items)) \<and>
   calculateChemistryScore (Some t) =
     100 - (if out_of_band PH (o_pH t) then 20 else 0)
         - (if out_of_band Chlorine (o_chlorine t) then 20 else 0)
         - (if out_of_band Alkalinity (o_alkalinity t) then 15 else 0) \<and>
   0 \<le> calculateChemistryScore (Some t) \<and>
   calculateOverallGrade c cl e = spec_grade ((c + cl + e) / 3) \<and>
   calculateOverallGrade 100 100 100 = ''A+'' \<and>
   calculateOverallGrade 0 0 0 = ''F'' \<and>
   calculateOverallGrade 80 40 75 = spec_grade 65 \<and>
   spec_grade 65 = ''F''"
proof -
  have chem: "calculateChemistryScore (Some t) =
     100 - (if out_of_band PH (o_pH t) then 20 else 0)
         - (if out_of_band Chlorine (o_chlorine t) then 20 else 0)
         - (if out_of_band Alkalinity (o_alkalinity t) then 15 else 0)"
    by (rule calculateChemistryScore_Some)
  have nonneg: "0 \<le> calculateChemistryScore (Some t)"
    unfolding chem by simp
  have grade: "calculateOverallGrade c cl e = spec_grade ((c + cl + e) / 3)"
    by (rule calculateOverallGrade_spec_grade)
  have top: "calculateOverallGrade 100 100 100 = ''A+''"
    by (simp add: calculateOverallGrade_def Let_def)
  have bottom: "calculateOverallGrade 0 0 0 = ''F''"
    by (simp add: calculateOverallGrade_def Let_def)
  have ex: "calculateOverallGrade 80 40 75 = spec_grade 65"
    by (simp add: calculateOverallGrade_spec_grade)
  have f: "spec_grade 65 = ''F''"
    by (simp add: spec_grade_def spec_cutoffs_def)
  show ?thesis
    using calculateClarityScore_table calculateEquipmentScore_cases [of items]
      chem nonneg grade top bottom ex f
    by blast
qed

text \<open>The theorem at four pieces of equipment of which three work.\<close>

theorem weekly_grade_scores_witness:
  "calculateEquipmentScore
     (Some [\<lparr>eq_equipment = Some ''pump'', eq_status = Some ''working''\<rparr>,
            \<lparr>eq_equipment = Some ''filter'', eq_status = Some ''working''\<rparr>,
            \<lparr>eq_equipment = Some ''heater'', eq_status = Some ''working''\<rparr>,
            \<lparr>eq_equipment = Some ''skimmer'', eq_status = Some ''broken''\<rparr>]) = 75"
proof -
  let ?items = "[\<lparr>eq_equipment = Some ''pump'', eq_status = Some ''working''\<rparr>,
            \<lparr>eq_equipment = Some ''filter'', eq_status = Some ''working''\<rparr>,
            \<lparr>eq_equipment = Some ''heater'', eq_status = Some ''working''\<rparr>,
            \<lparr>eq_equipment = Some ''skimmer'', eq_status = Some ''broken''\<rparr>]"
  have ne: "?items \<noteq> []" by simp
  with weekly_grade_scores [of ?items]
  have "calculateEquipmentScore (Some ?items) =
          100 * real (working_count ?items) / real (length ?items)"
    by blast
  then show ?thesis
    by (simp add: working_count_def)
qed

section \<open>The weekly analysis without test results\<close>

text \<open>
  Claim C9. When the water sample or its test results are absent, the weekly analysis
  does not fail: its chemistry score is 50 (the missing-value default of the clarity
  and of the equipment score is 70), and the overall grade is the grade of the mean of
  50, the clarity score of the inspection's water clarity and the equipment score of
  its equipment entries. The score 50 is below 70, so the result carries the
  recommendation to adjust the chemistry and the chemistry alert.
\<close>

theorem weekly_chemistry_absent:
  "(Option.bind (waterSample d) testResults = None \<longrightarrow>
      performWeeklyAIAnalysis d =
        \<lparr>overallGrade =
           spec_grade
             ((50 + calculateClarityScore (Option.bind (visualInspection d) waterClarity)
                  + calculateEquipmentScore (Option.bind (visualInspection d) equipmentStatus))
              / 3),
         chemistryScore = 50,
         clarityScore = calculateClarityScore (Option.bind (visualInspection d) waterClarity),
         equipmentScore =
           calculateEquipmentScore (Option.bind (visualInspection d) equipmentStatus),
         recommendations =
           [\<lparr>w_priority = ''high'', w_action = ''Adjust water chemistry'',
             w_reason = ''Chemical levels are outside optimal range'',
             w_estimatedCost = 50, w_timeframe = ''24 hours'', w_difficulty = ''easy''\<rparr>],
         alerts =
           [\<lparr>w_type = ''chemistry'', w_severity = ''warning'',
             w_message = ''Water chemistry requires immediate attention'',
             w_actionRequired = True\<rparr>]\<rparr>) \<and>
   calculateChemistryScore None = 50 \<and>
   calculateClarityScore None = 70 \<and>
   calculateEquipmentScore None = 70"
proof (intro conjI impI)
  assume absent: "Option.bind (waterSample d) testResults = None"
  then have chem: "calculateChemistryScore (Option.bind (waterSample d) testResults) = 50"
    by (simp add: calculateChemistryScore_def)
  show "performWeeklyAIAnalysis d =
        \<lparr>overallGrade =
           spec_grade
             ((50 + calculateClarityScore (Option.bind (visualInspection d) waterClarity)
                  + calculateEquipmentScore (Option.bind (visualInspection d) equipmentStatus))
              / 3),
         chemistryScore = 50,
         clarityScore = calculateClarityScore (Option.bind (visualInspection d) waterClarity),
         equipmentScore =
           calculateEquipmentScore (Option.bind (visualInspection d) equipmentStatus),
         recommendations =
           [\<lparr>w_priority = ''high'', w_action = ''Adjust water chemistry'',
             w_reason = ''Chemical levels are outside optimal range'',
             w_estimatedCost = 50, w_timeframe = ''24 hours'', w_difficulty = ''easy''\<rparr>],
         alerts =
           [\<lparr>w_type = ''chemistry'', w_severity = ''warning'',
             w_message = ''Water chemistry requires immediate attention'',
             w_actionRequired = True\<rparr>]\<rparr>"
    unfolding performWeeklyAIAnalysis_def Let_def chem calculateOverallGrade_spec_grade
    by (simp add: push_def)
next
  show "calculateChemistryScore None = 50"
    by (simp add: calculateChemistryScore_def)
  show "calculateClarityScore None = 70"
    by (simp add: calculateClarityScore_def)
  show "calculateEquipmentScore None = 70"
    by (simp add: calculateEquipmentScore_def)
qed

text \<open>
  The theorem at an assessment without test results, with crystal clear water and one
  working pump: the scores are 50, 100 and 100 and the grade is B, where a chemistry
  score of 70 would have given B+; and at an assessment with neither sample nor
  inspection, whose grade is F.
\<close>

theorem weekly_chemistry_absent_witness:
  "chemistryScore
     (performWeeklyAIAnalysis
        \<lparr>waterSample = Some \<lparr>testResults = None\<rparr>,
         visualInspection =
           Some \<lparr>waterClarity = Some crystal_clear,
                 equipmentStatus =
                   Some [\<lparr>eq_equipment = Some ''pump'', eq_status = Some ''working''\<rparr>]\<rparr>\<rparr>) = 50 \<and>
   clarityScore
     (performWeeklyAIAnalysis
        \<lparr>waterSample = Some \<lparr>testResults = None\<rparr>,
         visualInspection =
           Some \<lparr>waterClarity = Some crystal_clear,
                 equipmentStatus =
                   Some [\<lparr>eq_equipment = Some ''pump'', eq_status = Some ''working''\<rparr>]\<rparr>\<rparr>) = 100 \<and>
   equipmentScore
     (performWeeklyAIAnalysis
        \<lparr>waterSample = Some \<lparr>testResults = None\<rparr>,
         visualInspection =
           Some \<lparr>waterClarity = Some crystal_clear,
                 equipmentStatus =
                   Some [\<lparr>eq_equipment = Some ''pump'', eq_status = Some ''working''\<rparr>]\<rparr>\<rparr>) = 100 \<and>
   overallGrade
     (performWeeklyAIAnalysis
        \<lparr>waterSample = Some \<lparr>testResults = None\<rparr>,
         visualInspection =
           Some \<lparr>waterClarity = Some crystal_clear,
                 equipmentStatus =
                   Some [\<lparr>eq_equipment = Some ''pump'', eq_status = Some ''working''\<rparr>]\<rparr>\<rparr>) = ''B'' \<and>
   calculateOverallGrade 70 100 100 = ''B+'' \<and>
   overallGrade (performWeeklyAIAnalysis \<lparr>waterSample = None, visualInspection = None\<rparr>) = ''F''"
proof -
  let ?d = "\<lparr>waterSample = Some \<lparr>testResults = None\<rparr>,
         visualInspection =
           Some \<lparr>waterClarity = Some crystal_clear,
                 equipmentStatus =
                   Some [\<lparr>eq_equipment = Some ''pump'', eq_status = Some ''working''\<rparr>]\<rparr>\<rparr>"
  let ?n = "\<lparr>waterSample = None, visualInspection = None\<rparr>"
  have absent: "Option.bind (waterSample ?d) testResults = None"
    by simp
  have cl: "calculateClarityScore (Option.bind (visualInspection ?d) waterClarity) = 100"
    by (simp add: calculateClarityScore_def clarityScores_def)
  have eq: "calculateEquipmentScore (Option.bind (visualInspection ?d) equipmentStatus) = 100"
    by (simp add: calculateEquipmentScore_def)
  have g: "spec_grade ((50 + 100 + 100) / 3) = ''B''"
    by (simp add: spec_grade_def spec_cutoffs_def)
  from weekly_chemistry_absent [of ?d] absent
  have "performWeeklyAIAnalysis ?d =
        \<lparr>overallGrade =
           spec_grade
             ((50 + calculateClarityScore (Option.bind (visualInspection ?d) waterClarity)
                  + calculateEquipmentScore (Option.bind (visualInspection ?d) equipmentStatus))
              / 3),
         chemistryScore = 50,
         clarityScore = calculateClarityScore (Option.bind (visualInspection ?d) waterClarity),
         equipmentScore =
           calculateEquipmentScore (Option.bind (visualInspection ?d) equipmentStatus),
         recommendations =
           [\<lparr>w_priority = ''high'', w_action = ''Adjust water chemistry'',
             w_reason = ''Chemical levels are outside optimal range'',
             w_estimatedCost = 50, w_timeframe = ''24 hours'', w_difficulty = ''easy''\<rparr>],
         alerts =
           [\<lparr>w_type = ''chemistry'', w_severity = ''warning'',
             w_message = ''Water chemistry requires immediate attention'',
             w_actionRequired = True\<rparr>]\<rparr>"
    by blast
  then have present: "chemistryScore (performWeeklyAIAnalysis ?d) = 50 \<and>
      clarityScore (performWeeklyAIAnalysis ?d) = 100 \<and>
      equipmentScore (performWeeklyAIAnalysis ?d) = 100 \<and>
      overallGrade (performWeeklyAIAnalysis ?d) = ''B''"
    unfolding cl eq using g by simp
  have absent_n: "Option.bind (waterSample ?n) testResults = None"
    by simp
  from weekly_chemistry_absent [of ?n] absent_n
  have "overallGrade (performWeeklyAIAnalysis ?n) =
          spec_grade
             ((50 + calculateClarityScore (Option.bind (visualInspection ?n) waterClarity)
                  + calculateEquipmentScore (Option.bind (visualInspection ?n) equipmentStatus))
              / 3)"
    by simp
  then have none: "overallGrade (performWeeklyAIAnalysis ?n) = ''F''"
    by (simp add: calculateClarityScore_def calculateEquipmentScore_def spec_grade_def
        spec_cutoffs_def)
  have "calculateOverallGrade 70 100 100 = ''B+''"
    by (simp add: calculateOverallGrade_def Let_def)
  with present none show ?thesis by simp
qed

section \<open>The rounding of doubles on known values\<close>

text \<open>
  Zero is a double; the double nearest to \<open>0.1\<close> is \<open>3602879701896397 / 2^55\<close>; and
  \<open>0.1 + 0.2\<close> is the double written \<open>0.30000000000000004\<close>, not the one written
  \<open>0.3\<close>.
\<close>

lemma round_double_zero: "round_double 0 = Num 0"
  by (simp add: round_double_def)

lemma round_double_tenth: "round_double 0.1 = Num (3602879701896397 / 36028797018963968)"
  by code_simp

lemma double_sum_tenths:
  "jsnum_add (Num (double_of 0.1)) (Num (double_of 0.2)) = Num (double_of 0.30000000000000004) \<and>
   double_of 0.30000000000000004 \<noteq> double_of 0.3"
  by code_simp

section \<open>calculateTrend\<close>

lemma ceil_half_div: "ceil_half n = (n + 1) div 2"
proof -
  have "\<lceil>real n / 2\<rceil> = - (- int n div 2)"
    using ceiling_divide_eq_div [of "int n" 2] by simp
  then show ?thesis
    unfolding ceil_half_def by simp
qed

lemma slice_recent: "slice vals 0 (ceil_half (length vals)) = spec_recent_half vals"
  by (simp add: slice_def spec_recent_half_def ceil_half_div)

lemma slice_older: "slice_from vals (ceil_half (length vals)) = spec_older_half vals"
  by (simp add: slice_from_def spec_older_half_def ceil_half_div)

lemma percentChange_double: "percentChange vals = double_percent_change vals"
  unfolding percentChange_def Let_def slice_recent slice_older reduce_def
    double_percent_change_def double_mean_def double_sum_def
  by (rule refl)

lemma calculateTrend_vals:
  "calculateTrend readings parameter =
     (let vals = List.map_filter parameter readings in
      if length vals < 2 then ''insufficient_data''
      else if jsnum_lt (jsnum_abs (percentChange vals)) (Num 5) then ''stable''
      else if jsnum_gt (percentChange vals) (Num 0) then ''increasing''
      else ''decreasing'')"
proof -
  have "length (List.map_filter parameter readings) \<le> length readings"
    by (simp add: map_filter_def)
  then show ?thesis
    by (auto simp: calculateTrend_def Let_def)
qed

lemma calculateTrend_double:
  "calculateTrend readings parameter =
     (let vals = List.map_filter parameter readings in
      if length vals < 2 then ''insufficient_data''
      else if jsnum_lt (jsnum_abs (double_percent_change vals)) (Num 5) then ''stable''
      else if jsnum_gt (double_percent_change vals) (Num 0) then ''increasing''
      else ''decreasing'')"
  by (simp only: calculateTrend_vals percentChange_double)

lemma map_filter_Some: "List.map_filter Some xs = xs"
  by (induction xs) (simp_all add: map_filter_simps)

lemma threshold_example_double:
  "double_percent_change [7, 7, 7, 6, 7, 7] = Num (5629499534213115 / 1125899906842624)"
  by code_simp

lemma threshold_example_exact: "spec_percent_change [7, 7, 7, 6, 7, 7] = 5"
  by (simp add: spec_percent_change_def spec_mean_def spec_recent_half_def spec_older_half_def)

lemma spec_example_double:
  "double_percent_change (map double_of [7.0, 7.1, 7.5, 7.6]) =
     Num (- (1864072693448053 / 281474976710656))"
  by code_simp

text \<open>
  The specification computes the percent change of the two means and calls the trend
  \<open>stable\<close> when its absolute value is below 5. For the readings 7, 7, 7, 6, 7, 7 the
  percent change is exactly 5, which is not below 5, so the specification's trend is
  \<open>increasing\<close>. The program computes the quotient in doubles and gets
  \<open>4.999999999999996\<close>: its trend is \<open>stable\<close>.
\<close>

theorem calculateTrend_exact_counterexample:
  "spec_percent_change [7, 7, 7, 6, 7, 7] = 5 \<and>
   spec_trend [7, 7, 7, 6, 7, 7] = ''increasing'' \<and>
   double_percent_change [7, 7, 7, 6, 7, 7] = Num (5629499534213115 / 1125899906842624) \<and>
   calculateTrend [7, 7, 7, 6, 7, 7 :: real] Some = ''stable''"
proof -
  have "spec_trend [7, 7, 7, 6, 7, 7] = ''increasing''"
    by (simp add: spec_trend_def threshold_example_exact)
  moreover have "calculateTrend [7, 7, 7, 6, 7, 7 :: real] Some = ''stable''"
    by (simp add: calculateTrend_double map_filter_Some threshold_example_double)
  ultimately show ?thesis
    using threshold_example_exact threshold_example_double by simp
qed

text \<open>
  Claim C6, as the program has it. With fewer than 2 usable values the trend is
  \<open>insufficient_data\<close>. Otherwise the values, most recent first, are split into the first
  \<open>ceil(n/2)\<close> and the remainder; the percent change is (recent mean - older mean) /
  older mean * 100 evaluated in doubles, every sum, quotient, difference and product
  rounded; and the trend is \<open>stable\<close> when the absolute value of the number so computed
  is below 5, else \<open>increasing\<close> when it is above 0, else \<open>decreasing\<close>. The readings
  7.0, 7.1, 7.5, 7.6 split into 7.0, 7.1 and 7.5, 7.6 and give \<open>decreasing\<close>; the readings
  7, 7, 7, 6, 7, 7 give \<open>stable\<close>.
\<close>

theorem calculateTrend_spec:
  "(length (List.map_filter parameter readings) < 2 \<longrightarrow>
      calculateTrend readings parameter = ''insufficient_data'') \<and>
   (2 \<le> length (List.map_filter parameter readings) \<longrightarrow>
      calculateTrend readings parameter =
        (if jsnum_lt (jsnum_abs (double_percent_change (List.map_filter parameter readings)))
              (Num 5)
         then ''stable''
         else if jsnum_gt (double_percent_change (List.map_filter parameter readings)) (Num 0)
         then ''increasing''
         else ''decreasing'')) \<and>
   (2 \<le> length (List.map_filter parameter readings) \<and>
    double_percent_change (List.map_filter parameter readings) = Num p \<longrightarrow>
      calculateTrend readings parameter =
        (if \<bar>p\<bar> < 5 then ''stable'' else if 0 < p then ''increasing'' else ''decreasing'')) \<and>
   spec_recent_half [7.0, 7.1, 7.5, 7.6] = [7.0, 7.1] \<and>
   spec_older_half [7.0, 7.1, 7.5, 7.6] = [7.5, 7.6] \<and>
   calculateTrend (map double_of [7.0, 7.1, 7.5, 7.6]) Some = ''decreasing'' \<and>
   calculateTrend [7, 7, 7, 6, 7, 7 :: real] Some = ''stable''"
proof (intro conjI impI)
  assume "length (List.map_filter parameter readings) < 2"
  then show "calculateTrend readings parameter = ''insufficient_data''"
    by (simp add: calculateTrend_double)
next
  assume "2 \<le> length (List.map_filter parameter readings)"
  then show "calculateTrend readings parameter =
        (if jsnum_lt (jsnum_abs (double_percent_change (List.map_filter parameter readings)))
              (Num 5)
         then ''stable''
         else if jsnum_gt (double_percent_change (List.map_filter parameter readings)) (Num 0)
         then ''increasing''
         else ''decreasing'')"
    by (simp add: calculateTrend_double)
next
  assume "2 \<le> length (List.map_filter parameter readings) \<and>
    double_percent_change (List.map_filter parameter readings) = Num p"
  then show "calculateTrend readings parameter =
        (if \<bar>p\<bar> < 5 then ''stable'' else if 0 < p then ''increasing'' else ''decreasing'')"
    by (simp add: calculateTrend_double jsnum_gt_def)
next
  show "spec_recent_half [7.0, 7.1, 7.5, 7.6] = [7.0, 7.1]"
    by (simp add: spec_recent_half_def)
  show "spec_older_half [7.0, 7.1, 7.5, 7.6] = [7.5, 7.6]"
    by (simp add: spec_older_half_def)
  have "length (map double_of [7.0, 7.1, 7.5, 7.6]) = 4"
    by simp
  then show "calculateTrend (map double_of [7.0, 7.1, 7.5, 7.6]) Some = ''decreasing''"
    by (simp only: calculateTrend_double map_filter_Some Let_def spec_example_double)
      (simp add: jsnum_gt_def)
  show "calculateTrend [7, 7, 7, 6, 7, 7 :: real] Some = ''stable''"
    by (simp add: calculateTrend_double map_filter_Some threshold_example_double)
qed

text \<open>
  The theorem at one reading and at the four readings of the example, whose computed
  percent change is about -6.62.
\<close>

theorem calculateTrend_spec_witness:
  "calculateTrend [7.0 :: real] Some = ''insufficient_data'' \<and>
   double_percent_change (map double_of [7.0, 7.1, 7.5, 7.6]) =
     Num (- (1864072693448053 / 281474976710656)) \<and>
   calculateTrend (map double_of [7.0, 7.1, 7.5, 7.6]) Some = ''decreasing''"
proof -
  let ?rs = "map double_of [7.0, 7.1, 7.5, 7.6]"
  have one: "length (List.map_filter Some [7.0 :: real]) < 2"
    by (simp add: map_filter_Some)
  have four: "2 \<le> length (List.map_filter Some ?rs) \<and>
      double_percent_change (List.map_filter Some ?rs) =
        Num (- (1864072693448053 / 281474976710656))"
    by (simp only: map_filter_Some spec_example_double) simp
  have "calculateTrend [7.0 :: real] Some = ''insufficient_data''"
    using calculateTrend_spec [of Some "[7.0 :: real]"] one by blast
  moreover have "calculateTrend ?rs Some =
      (if \<bar>- (1864072693448053 / 281474976710656 :: real)\<bar> < 5 then ''stable''
       else if 0 < - (1864072693448053 / 281474976710656 :: real) then ''increasing''
       else ''decreasing'')"
    using calculateTrend_spec [of Some ?rs "- (1864072693448053 / 281474976710656)"] four
    by blast
  then have "calculateTrend ?rs Some = ''decreasing''"
    by simp
  ultimately show ?thesis using spec_example_double by simp
qed

section \<open>calculateTrend when the older mean is 0\<close>

lemma jsnum_div_zero:
  "jsnum_div x (Num 0) = PosInf \<or> jsnum_div x (Num 0) = NegInf \<or> jsnum_div x (Num 0) = NaN"
  by (cases x) simp_all

lemma jsnum_mul_hundred:
  assumes "y = PosInf \<or> y = NegInf \<or> y = NaN"
  shows "jsnum_mul y (Num 100) = y"
  using assms by auto

lemma nonfinite_trend:
  assumes "y = PosInf \<or> y = NegInf \<or> y = NaN"
  shows "\<not> jsnum_lt (jsnum_abs y) (Num 5)"
  using assms by auto

lemma double_sum_zeros:
  assumes "\<forall>v \<in> set xs. v = 0"
  shows "double_sum xs = Num 0"
proof -
  have "foldl (\<lambda>a b. jsnum_add a (Num b)) (Num 0) xs = Num 0"
    using assms by (induction xs) (simp_all add: round_double_zero)
  then show ?thesis by (simp add: double_sum_def)
qed

lemma double_mean_zeros:
  assumes "\<forall>v \<in> set xs. v = 0"
  shows "double_mean xs = Num 0 \<or> double_mean xs = NaN"
  using assms by (simp add: double_mean_def double_sum_zeros round_double_zero)

lemma double_mean_zeros_nonempty:
  assumes "\<forall>v \<in> set xs. v = 0" and "xs \<noteq> []"
  shows "double_mean xs = Num 0"
  using assms by (simp add: double_mean_def double_sum_zeros round_double_zero)

lemma older_half_nonempty:
  assumes "2 \<le> length vals"
  shows "spec_older_half vals \<noteq> []" and "spec_recent_half vals \<noteq> []"
  using assms by (auto simp: spec_older_half_def spec_recent_half_def)

lemma nonneg_mean_zero:
  assumes "\<forall>v \<in> set xs. 0 \<le> v" and "spec_mean xs = 0" and "xs \<noteq> []"
  shows "\<forall>v \<in> set xs. v = 0"
proof -
  from assms(2,3) have "sum_list xs = 0"
    by (simp add: spec_mean_def)
  with assms(1) show ?thesis
    by (simp add: sum_list_nonneg_eq_0_iff)
qed

lemma zero_older_mean_nonfinite:
  assumes "double_mean (spec_older_half vals) = Num 0"
  shows "double_percent_change vals = PosInf \<or> double_percent_change vals = NegInf \<or>
         double_percent_change vals = NaN"
proof -
  let ?q = "jsnum_div (jsnum_sub (double_mean (spec_recent_half vals)) (Num 0)) (Num 0)"
  have q: "?q = PosInf \<or> ?q = NegInf \<or> ?q = NaN"
    by (rule jsnum_div_zero)
  then have "jsnum_mul ?q (Num 100) = ?q"
    by (rule jsnum_mul_hundred)
  with q show ?thesis
    by (simp add: double_percent_change_def assms)
qed


lemma nonfinite_trend_cases:
  assumes "2 \<le> length (List.map_filter parameter readings)"
    and "double_percent_change (List.map_filter parameter readings) = PosInf \<or>
         double_percent_change (List.map_filter parameter readings) = NegInf \<or>
         double_percent_change (List.map_filter parameter readings) = NaN"
  shows "calculateTrend readings parameter = ''increasing'' \<or>
         calculateTrend readings parameter = ''decreasing''"
    and "calculateTrend readings parameter \<noteq> ''stable''"
  using assms by (auto simp: calculateTrend_double jsnum_gt_def)

lemma zeros_percent_change:
  assumes "2 \<le> length vals" and "\<forall>v \<in> set vals. v = 0"
  shows "double_percent_change vals = NaN"
proof -
  have "\<forall>v \<in> set (spec_recent_half vals). v = 0"
    using assms(2) unfolding spec_recent_half_def by (meson in_set_takeD)
  then have r: "double_mean (spec_recent_half vals) = Num 0"
    using older_half_nonempty(2) [OF assms(1)] by (simp add: double_mean_zeros_nonempty)
  have "\<forall>v \<in> set (spec_older_half vals). v = 0"
    using assms(2) unfolding spec_older_half_def by (meson in_set_dropD)
  then have o: "double_mean (spec_older_half vals) = Num 0"
    using older_half_nonempty(1) [OF assms(1)] by (simp add: double_mean_zeros_nonempty)
  show ?thesis
    by (simp add: double_percent_change_def r o round_double_zero)
qed

text \<open>
  Claim C10. The division by the older mean has no guard against 0. For at least 2
  usable values whose older half has the mean 0, the percent change is an infinity or
  \<open>NaN\<close>, not a finite number, and the function still returns \<open>increasing\<close> or
  \<open>decreasing\<close>, never \<open>stable\<close>. The mean is 0 as the program computes it; for readings
  that are not negative, which is what the schema admits, that is the case exactly when
  the exact mean is 0. When all values are 0 the percent change is \<open>NaN\<close> and the trend
  is \<open>decreasing\<close>.
\<close>

theorem calculateTrend_zero_older_mean:
  "(2 \<le> length (List.map_filter parameter readings) \<and>
    double_mean (spec_older_half (List.map_filter parameter readings)) = Num 0 \<longrightarrow>
      (percentChange (List.map_filter parameter readings) = PosInf \<or>
       percentChange (List.map_filter parameter readings) = NegInf \<or>
       percentChange (List.map_filter parameter readings) = NaN) \<and>
      (calculateTrend readings parameter = ''increasing'' \<or>
       calculateTrend readings parameter = ''decreasing'') \<and>
      calculateTrend readings parameter \<noteq> ''stable'') \<and>
   (2 \<le> length (List.map_filter parameter readings) \<and>
    (\<forall>v \<in> set (List.map_filter parameter readings). 0 \<le> v) \<and>
    spec_mean (spec_older_half (List.map_filter parameter readings)) = 0 \<longrightarrow>
      (percentChange (List.map_filter parameter readings) = PosInf \<or>
       percentChange (List.map_filter parameter readings) = NegInf \<or>
       percentChange (List.map_filter parameter readings) = NaN) \<and>
      (calculateTrend readings parameter = ''increasing'' \<or>
       calculateTrend readings parameter = ''decreasing'') \<and>
      calculateTrend readings parameter \<noteq> ''stable'') \<and>
   (2 \<le> length (List.map_filter parameter readings) \<and>
    (\<forall>v \<in> set (List.map_filter parameter readings). v = 0) \<longrightarrow>
      percentChange (List.map_filter parameter readings) = NaN \<and>
      calculateTrend readings parameter = ''decreasing'')"
proof -
  let ?vals = "List.map_filter parameter readings"
  have computed: "(percentChange ?vals = PosInf \<or> percentChange ?vals = NegInf \<or>
         percentChange ?vals = NaN) \<and>
        (calculateTrend readings parameter = ''increasing'' \<or>
         calculateTrend readings parameter = ''decreasing'') \<and>
        calculateTrend readings parameter \<noteq> ''stable''"
    if two: "2 \<le> length ?vals" and zero: "double_mean (spec_older_half ?vals) = Num 0"
  proof -
    have nf: "double_percent_change ?vals = PosInf \<or> double_percent_change ?vals = NegInf \<or>
              double_percent_change ?vals = NaN"
      using zero by (rule zero_older_mean_nonfinite)
    then show ?thesis
      using nonfinite_trend_cases [OF two nf] by (simp add: percentChange_double)
  qed
  have exact: "double_mean (spec_older_half ?vals) = Num 0"
    if two: "2 \<le> length ?vals" and nonneg: "\<forall>v \<in> set ?vals. 0 \<le> v"
      and mean: "spec_mean (spec_older_half ?vals) = 0"
  proof -
    have "\<forall>v \<in> set (spec_older_half ?vals). 0 \<le> v"
      using nonneg unfolding spec_older_half_def by (meson in_set_dropD)
    then have "\<forall>v \<in> set (spec_older_half ?vals). v = 0"
      using mean older_half_nonempty(1) [OF two] by (rule nonneg_mean_zero)
    then show ?thesis
      using older_half_nonempty(1) [OF two] by (rule double_mean_zeros_nonempty)
  qed
  have zeros: "percentChange ?vals = NaN \<and> calculateTrend readings parameter = ''decreasing''"
    if two: "2 \<le> length ?vals" and all: "\<forall>v \<in> set ?vals. v = 0"
  proof -
    have "double_percent_change ?vals = NaN"
      using two all by (rule zeros_percent_change)
    then show ?thesis
      using two by (simp add: percentChange_double calculateTrend_double jsnum_gt_def)
  qed
  show ?thesis
    using computed exact zeros by blast
qed

text \<open>
  The theorem at four readings that are all 0 and at the readings 3, 0, whose percent
  change is an infinity.
\<close>

lemma infinite_example: "double_percent_change [3, 0] = PosInf"
  by code_simp

theorem calculateTrend_zero_older_mean_witness:
  "percentChange [0, 0, 0, 0] = NaN \<and>
   calculateTrend [0, 0, 0, 0 :: real] Some = ''decreasing'' \<and>
   percentChange [3, 0] = PosInf \<and>
   calculateTrend [3, 0 :: real] Some \<noteq> ''stable''"
proof -
  have zero: "2 \<le> length (List.map_filter Some [0, 0, 0, 0 :: real]) \<and>
    (\<forall>v \<in> set (List.map_filter Some [0, 0, 0, 0 :: real]). v = 0)"
    by (simp add: map_filter_Some)
  have older: "2 \<le> length (List.map_filter Some [3, 0 :: real]) \<and>
    (\<forall>v \<in> set (List.map_filter Some [3, 0 :: real]). 0 \<le> v) \<and>
    spec_mean (spec_older_half (List.map_filter Some [3, 0 :: real])) = 0"
    by (simp add: map_filter_Some spec_mean_def spec_older_half_def)
  have "percentChange (List.map_filter Some [0, 0, 0, 0 :: real]) = NaN \<and>
        calculateTrend [0, 0, 0, 0 :: real] Some = ''decreasing''"
    using calculateTrend_zero_older_mean [of Some "[0, 0, 0, 0 :: real]"] zero by blast
  moreover have "calculateTrend [3, 0 :: real] Some \<noteq> ''stable''"
    using calculateTrend_zero_older_mean [of Some "[3, 0 :: real]"] older by blast
  moreover have "percentChange [3, 0] = PosInf"
    by (simp add: percentChange_double infinite_example)
  ultimately show ?thesis by (simp add: map_filter_Some)
qed

section \<open>Recommendations without a reading\<close>

lemma symptom_step_append:
  "symptom_step pushed symptom = pushed @ spec_symptom_recommendations symptom"
  by (simp add: symptom_step_def spec_symptom_recommendations_def Let_def push_def)

lemma foldl_symptom_step:
  "foldl symptom_step pushed symptoms =
     pushed @ concat (map spec_symptom_recommendations symptoms)"
proof (induction symptoms arbitrary: pushed)
  case Nil
  then show ?case by simp
next
  case (Cons symptom symptoms)
  then show ?case by (simp add: symptom_step_append)
qed

lemma getRecommendations_no_reading:
  assumes "waterChemistry this = []"
  shows "getRecommendations this =
           [\<lparr>type = ''urgent'', message = ''Water chemistry test needed immediately'',
             priority = None\<rparr>]"
proof -
  from assms have "latestWaterChemistry this = None"
    by (simp add: latestWaterChemistry_None_iff)
  then show ?thesis
    by (simp add: getRecommendations_def push_def)
qed

text \<open>
  The specification's \<open>recommend\<close> takes a reading and a list of symptoms and, without a
  reading, returns the one urgent recommendation whatever the symptoms.
  \<open>getRecommendations\<close> takes no symptoms; the function that does,
  \<open>generateRuleBasedAnalysis\<close>, has no such short cut. Without a reading and with the
  symptoms "Green algae on the walls" and "Cloudy water" it recommends two actions, both
  drawn from the symptoms, and none of them is the urgent test.
\<close>

theorem no_reading_symptoms_counterexample:
  "rb_recommendations
     (generateRuleBasedAnalysis None [''Green algae on the walls'', ''Cloudy water'']) =
     [''Shock treatment with chlorine, brush walls, and run filtration 24/7 until clear'',
      ''Check and clean filter, test water chemistry, consider clarifier treatment''] \<and>
   length (rb_recommendations
     (generateRuleBasedAnalysis None [''Green algae on the walls'', ''Cloudy water''])) = 2 \<and>
   ''Water chemistry test needed immediately'' \<notin>
     set (rb_recommendations
       (generateRuleBasedAnalysis None [''Green algae on the walls'', ''Cloudy water'']))"
  by (simp add: generateRuleBasedAnalysis_def Let_def symptom_step_def push_def
      toLowerCase_def toLowerCase_char_def)

text \<open>
  Claim C3, as the program has it. \<open>getRecommendations\<close> of a pool without readings is
  exactly the one recommendation of type \<open>urgent\<close>, "Water chemistry test needed
  immediately". \<open>generateRuleBasedAnalysis\<close> without a reading skips the checks of the
  chemistry only: it finds no issue and recommends, symptom by symptom in the order
  given, what each symptom brings.
\<close>

theorem no_reading_recommendations:
  "(waterChemistry this = [] \<longrightarrow>
      getRecommendations this =
        [\<lparr>type = ''urgent'', message = ''Water chemistry test needed immediately'',
          priority = None\<rparr>]) \<and>
   rb_recommendations (generateRuleBasedAnalysis None symptoms) =
     concat (map spec_symptom_recommendations symptoms) \<and>
   rb_issues (generateRuleBasedAnalysis None symptoms) = []"
proof (intro conjI impI)
  assume "waterChemistry this = []"
  then show "getRecommendations this =
        [\<lparr>type = ''urgent'', message = ''Water chemistry test needed immediately'',
          priority = None\<rparr>]"
    by (rule getRecommendations_no_reading)
next
  show "rb_recommendations (generateRuleBasedAnalysis None symptoms) =
     concat (map spec_symptom_recommendations symptoms)"
    by (cases symptoms) (simp_all add: generateRuleBasedAnalysis_def Let_def foldl_symptom_step
        symptom_step_append)
  show "rb_issues (generateRuleBasedAnalysis None symptoms) = []"
    by (simp add: generateRuleBasedAnalysis_def Let_def)
qed

text \<open>The theorem at the pool without readings and at the one symptom "It smells".\<close>

theorem no_reading_recommendations_witness:
  "getRecommendations \<lparr>waterChemistry = []\<rparr> =
     [\<lparr>type = ''urgent'', message = ''Water chemistry test needed immediately'',
       priority = None\<rparr>] \<and>
   rb_recommendations (generateRuleBasedAnalysis None [''It smells'']) =
     [''Test chlorine levels, shock if needed, check pH balance'']"
proof -
  have "waterChemistry \<lparr>waterChemistry = []\<rparr> = []"
    by simp
  with no_reading_recommendations [of "\<lparr>waterChemistry = []\<rparr>" "[''It smells'']"]
  have "getRecommendations \<lparr>waterChemistry = []\<rparr> =
        [\<lparr>type = ''urgent'', message = ''Water chemistry test needed immediately'',
          priority = None\<rparr>]"
    and "rb_recommendations (generateRuleBasedAnalysis None [''It smells'']) =
          concat (map spec_symptom_recommendations [''It smells''])"
    by blast+
  moreover have "concat (map spec_symptom_recommendations [''It smells'']) =
      [''Test chlorine levels, shock if needed, check pH balance'']"
    by (simp add: spec_symptom_recommendations_def toLowerCase_def toLowerCase_char_def)
  ultimately show ?thesis by simp
qed

end
